theory Spec2Isabelle
  imports Main
begin

section \<open>The Odin command line front end (cli/src/cli.ts)\<close>

text \<open>
  The program resolves a command line, or the answers of an interactive wizard, into an
  options object and hands it to one of five collaborators of the module \<open>./commands\<close>.
  The embedding keeps the structure of the source: one definition per function of
  \<open>cli.ts\<close>, the effects of a run as a list of events followed by the way the process
  ends.
\<close>

subsection \<open>JavaScript values\<close>

text \<open>
  The option bag of commander and the answer hash of inquirer are untyped, so the values
  that flow through them are modelled as they are at run time: \<open>undefined\<close>, a
  boolean or a string. Neither library puts a number there, since the program gives no
  coercion function. A string is the list of the bytes of its UTF-8 encoding.
\<close>

datatype jsval = JUndef | JBool bool | JStr string

text \<open>The truthiness test of \<open>if (v)\<close>, \<open>!v\<close>, \<open>v || d\<close> and \<open>Boolean(v)\<close>.\<close>

fun truthy :: "jsval \<Rightarrow> bool" where
  "truthy JUndef = False"
| "truthy (JBool b) = b"
| "truthy (JStr s) = (s \<noteq> [])"

text \<open>String conversion, as a template literal applies it.\<close>

fun to_string :: "jsval \<Rightarrow> string" where
  "to_string JUndef = ''undefined''"
| "to_string (JBool b) = (if b then ''true'' else ''false'')"
| "to_string (JStr s) = s"

text \<open>
  The numbers of the program are the literal 8080 and the results of \<open>parseInt\<close>.
  \<open>Num n\<close> is the double that is the integer \<open>n\<close>; it is built only for
  \<open>n\<close> up to \<open>2 ^ 53\<close> in magnitude, where every integer is a double, and stands
  for both zeros when \<open>n = 0\<close>. \<open>Approx n\<close> is the double that the
  implementation makes of a larger integer \<open>n\<close>: a rounding of \<open>n\<close>, or an
  infinity; which one is not modelled.
\<close>

datatype number = Num int | NaN | Approx int

subsection \<open>Character classes and the two anchored patterns\<close>

definition in_range :: "char \<Rightarrow> char \<Rightarrow> char \<Rightarrow> bool" where
  "in_range lo hi c = ((of_char lo :: nat) \<le> of_char c \<and> (of_char c :: nat) \<le> of_char hi)"

text \<open>The class \<open>[a-zA-Z0-9-]\<close>.\<close>

definition name_char :: "char \<Rightarrow> bool" where
  "name_char c = (in_range CHR ''a'' CHR ''z'' c \<or> in_range CHR ''A'' CHR ''Z'' c
                  \<or> in_range CHR ''0'' CHR ''9'' c \<or> c = CHR ''-'')"

text \<open>The class \<open>\d\<close>.\<close>

definition digit :: "char \<Rightarrow> bool" where
  "digit c = in_range CHR ''0'' CHR ''9'' c"

text \<open>
  A matcher for the patterns of the shape \<open>^C+$\<close>: it consumes one character of the class
  and then either stands at the end of the input or repeats. Without the multiline flag
  \<open>$\<close> matches at the very end only.
\<close>

fun match_plus :: "(char \<Rightarrow> bool) \<Rightarrow> string \<Rightarrow> bool" where
  "match_plus C [] = False"
| "match_plus C (c # cs) = (C c \<and> (cs = [] \<or> match_plus C cs))"

subsection \<open>parseInt with radix 10\<close>

text \<open>
  The white space that \<open>parseInt\<close> skips: tab, line feed, vertical tab, form feed,
  carriage return and space, and in UTF-8 the no-break space, the byte order mark, the
  line and paragraph separators and the other space separators of Unicode.
\<close>

definition space_sequences :: "string list" where
  "space_sequences =
     map (\<lambda>c. [c]) [CHR 0x09, CHR 0x0A, CHR 0x0B, CHR 0x0C, CHR 0x0D, CHR 0x20]
     @ [[CHR 0xC2, CHR 0xA0], [CHR 0xE1, CHR 0x9A, CHR 0x80]]
     @ map (\<lambda>c. [CHR 0xE2, CHR 0x80, c])
         [CHR 0x80, CHR 0x81, CHR 0x82, CHR 0x83, CHR 0x84, CHR 0x85, CHR 0x86, CHR 0x87,
          CHR 0x88, CHR 0x89, CHR 0x8A, CHR 0xA8, CHR 0xA9, CHR 0xAF]
     @ [[CHR 0xE2, CHR 0x81, CHR 0x9F], [CHR 0xE3, CHR 0x80, CHR 0x80], [CHR 0xEF, CHR 0xBB, CHR 0xBF]]"

text \<open>The number of bytes of the white space character at the head of a string, 0 if there is none.\<close>

definition space_length :: "string \<Rightarrow> nat" where
  "space_length s =
     (case filter (\<lambda>w. take (length w) s = w) space_sequences of
        [] \<Rightarrow> 0
      | w # _ \<Rightarrow> length w)"

fun skip_space :: "string \<Rightarrow> string" where
  "skip_space [] = []"
| "skip_space (c # cs) =
     (if space_length (c # cs) = 0 then c # cs
      else skip_space (drop (space_length (c # cs) - 1) cs))"

fun digits_value :: "nat \<Rightarrow> string \<Rightarrow> nat" where
  "digits_value acc [] = acc"
| "digits_value acc (c # cs) = digits_value (10 * acc + (of_char c - 48)) cs"

definition parse_digits :: "string \<Rightarrow> nat option" where
  "parse_digits s = (let ds = takeWhile digit s in if ds = [] then None else Some (digits_value 0 ds))"

definition to_number :: "int \<Rightarrow> number" where
  "to_number n = (if \<bar>n\<bar> \<le> 2 ^ 53 then Num n else Approx n)"

text \<open>
  The argument is converted to a string, leading white space is skipped, one sign is
  read, then the longest prefix of decimal digits; no digit gives NaN.
\<close>

definition parseInt :: "jsval \<Rightarrow> number" where
  "parseInt v =
     (let s = skip_space (to_string v)
      in case s of
           [] \<Rightarrow> NaN
         | c # cs \<Rightarrow>
             if c = CHR ''-'' then (case parse_digits cs of None \<Rightarrow> NaN | Some n \<Rightarrow> to_number (- int n))
             else if c = CHR ''+'' then (case parse_digits cs of None \<Rightarrow> NaN | Some n \<Rightarrow> to_number (int n))
             else (case parse_digits s of None \<Rightarrow> NaN | Some n \<Rightarrow> to_number (int n)))"

subsection \<open>Option objects of the collaborators\<close>

text \<open>An optional field that the object literal does not set is \<open>None\<close>.\<close>

record ProxyOptions =
  target :: jsval

record INewProjectOptions =
  name :: jsval
  style :: jsval
  angular :: "jsval option"
  proxy :: "ProxyOptions option"
  install :: "jsval option"
  git :: "jsval option"

text \<open>
  The port of the serve options is what the source puts there: a value of the option bag
  as it is, or a number.
\<close>

datatype portval = Raw jsval | Numeric number

record IServeOptions =
  port :: portval
  multiTenant :: bool
  ionApi :: bool

subsection \<open>The world of a run\<close>

text \<open>
  What a collaborator does is not part of \<open>cli.ts\<close>; a run is given the way each call
  ends. \<open>Fails e\<close> is a rejected promise for the collaborators that are awaited or
  chained, and a thrown exception for the synchronous \<open>setConfiguration\<close>.
\<close>

datatype outcome = Succeeds | Fails jsval

record env =
  existsSync :: "string \<Rightarrow> bool"
  isValidProxyUrl :: "jsval \<Rightarrow> bool"
  newProject :: "INewProjectOptions \<Rightarrow> outcome"
  serveProject :: "IServeOptions \<Rightarrow> outcome"
  buildProject :: outcome
  setConfiguration :: "string \<Rightarrow> string \<Rightarrow> outcome"
  login :: outcome

datatype call =
    NewProject INewProjectOptions
  | ServeProject IServeOptions
  | BuildProject
  | SetConfiguration string string
  | Login

datatype event =
    ConsoleLog "jsval list"
  | ConsoleError "jsval list"
  | OutputHelp
  | Call call
  | Prompted string
  | PromptError jsval
  | MissingArgument string

text \<open>
  How the process ends: \<open>process.exit(n)\<close>; the end of the script with nothing pending
  (exit status 0); a rejection that no handler of the program takes; a prompt that is
  never answered.
\<close>

datatype status = Exited nat | Finished | Unhandled jsval | Interrupted

type_synonym run = "event list \<times> status"

subsection \<open>exit, wrapServe, wrapNew\<close>

definition exit :: "jsval \<Rightarrow> bool \<Rightarrow> run" where
  "exit message outputHelp =
     ((if truthy message then [ConsoleError [JStr ''ERROR:'', message]] else [])
      @ (if outputHelp then [OutputHelp] else []),
      Exited 1)"

text \<open>Run \<open>r\<close> after the events \<open>evs\<close>.\<close>

definition after :: "event list \<Rightarrow> run \<Rightarrow> run" where
  "after evs r = (evs @ fst r, snd r)"

definition wrapServe :: "env \<Rightarrow> IServeOptions \<Rightarrow> run" where
  "wrapServe e options =
     (if \<not> existsSync e ''odin.json'' then exit (JStr ''Could not find an Odin configuration file.'') False
      else after [ConsoleLog [JStr ''Starting Dev Server...''], Call (ServeProject options)]
        (case serveProject e options of
           Succeeds \<Rightarrow> ([], Finished)
         | Fails error \<Rightarrow>
             after [ConsoleError [error]] (exit (JStr ''Serving was aborted because of an error'') False)))"

definition wrapNew :: "env \<Rightarrow> INewProjectOptions \<Rightarrow> run" where
  "wrapNew e options =
     after [Call (NewProject options)]
       (case newProject e options of
          Succeeds \<Rightarrow>
            ([ConsoleLog [JStr ''Done!''],
              ConsoleLog [JStr ''To continue with the new project, install dependencies and start the server:''],
              ConsoleLog [JStr (CHR 0x09 # ''cd''), name options],
              ConsoleLog [JStr (CHR 0x09 # ''npm install'')],
              ConsoleLog [JStr (CHR 0x09 # ''odin serve'')]], Finished)
        | Fails error \<Rightarrow>
            after [ConsoleError [error]] (exit (JStr ''Failed to create new project'') False))"

subsection \<open>The prompting library\<close>

text \<open>
  \<open>inquirer.prompt\<close> asks a list of questions in order and returns the hash of the
  answers. A question carries the fields the source sets: \<open>name\<close>, \<open>message\<close>,
  \<open>type\<close> with \<open>default\<close>, \<open>choices\<close> and \<open>validate\<close>, and \<open>when\<close>. A question
  without \<open>when\<close> is always asked; an input question without \<open>default\<close> has the empty
  string. A question whose \<open>when\<close> is false on the answers so far is skipped and leaves
  no key in the hash.
\<close>

type_synonym answers = "string \<rightharpoonup> jsval"

text \<open>Reading a property of a hash: a missing key reads as \<open>undefined\<close>.\<close>

definition field :: "answers \<Rightarrow> string \<Rightarrow> jsval" where
  "field h k = (case h k of None \<Rightarrow> JUndef | Some v \<Rightarrow> v)"

datatype qkind =
    Input string "string \<Rightarrow> jsval"
  | Confirm bool
  | ListQ "(string \<times> string) list" jsval

record question =
  qname :: string
  qmessage :: string
  qkind :: qkind
  qwhen :: "answers \<Rightarrow> bool"

text \<open>
  What the user does at a prompt. \<open>Typed s\<close>: return is pressed while the line of an
  input or confirm prompt holds the text \<open>s\<close>; the empty text is a bare return.
  \<open>Selected i\<close>: return is pressed while entry \<open>i\<close> of a list is highlighted. A
  list has no line: text typed there moves nothing and return takes the entry that is
  highlighted from the start. A selection at a prompt without a list, or beyond the end
  of the list, is no response of that prompt and is passed over.
\<close>

datatype response = Typed string | Selected nat

text \<open>The confirm prompt tests the typed line against \<open>/^y(es)?/i\<close>.\<close>

definition says_yes :: "string \<Rightarrow> bool" where
  "says_yes s = (case s of [] \<Rightarrow> False | c # _ \<Rightarrow> c = CHR ''y'' \<or> c = CHR ''Y'')"

text \<open>
  The entry of a list that is highlighted from the start: the one whose value is the
  default, else the first.
\<close>

definition highlighted :: "(string \<times> string) list \<Rightarrow> jsval \<Rightarrow> jsval option" where
  "highlighted cs d =
     (case filter (\<lambda>c. JStr (snd c) = d) cs of
        c # _ \<Rightarrow> Some (JStr (snd c))
      | [] \<Rightarrow> (case cs of c # _ \<Rightarrow> Some (JStr (snd c)) | [] \<Rightarrow> None))"

text \<open>The value a prompt reads from a response; \<open>None\<close> when the response is passed over.\<close>

fun read_value :: "qkind \<Rightarrow> response \<Rightarrow> jsval option" where
  "read_value (Input d v) (Typed s) = Some (JStr (if s = [] then d else s))"
| "read_value (Input d v) (Selected i) = None"
| "read_value (Confirm d) (Typed s) = Some (JBool (if s = [] then d else says_yes s))"
| "read_value (Confirm d) (Selected i) = None"
| "read_value (ListQ cs d) (Typed s) = highlighted cs d"
| "read_value (ListQ cs d) (Selected i) = (if i < length cs then Some (JStr (snd (cs ! i))) else None)"

text \<open>The verdict of \<open>validate\<close>: only input questions of the source have one.\<close>

fun verdict :: "qkind \<Rightarrow> jsval \<Rightarrow> jsval" where
  "verdict (Input d v) (JStr s) = v s"
| "verdict k x = JBool True"

text \<open>
  The default of an input prompt stands for the empty line until the first submission
  only: once a value has been rejected, an empty line is the empty string.
\<close>

fun resubmit :: "qkind \<Rightarrow> qkind" where
  "resubmit (Input d v) = Input [] v"
| "resubmit k = k"

text \<open>
  One question: responses are consumed until one is read and passes \<open>validate\<close>; a
  rejected value shows the returned reason and the question is asked again. The user may
  leave before answering.
\<close>

fun ask :: "qkind \<Rightarrow> response list \<Rightarrow> event list \<times> (jsval \<times> response list) option" where
  "ask k [] = ([], None)"
| "ask k (r # rs) =
     (case read_value k r of
        None \<Rightarrow> ask k rs
      | Some x \<Rightarrow>
          if verdict k x = JBool True then ([], Some (x, rs))
          else (PromptError (verdict k x) # fst (ask (resubmit k) rs), snd (ask (resubmit k) rs)))"

fun prompt :: "question list \<Rightarrow> answers \<Rightarrow> response list \<Rightarrow> event list \<times> (answers \<times> response list) option" where
  "prompt [] h rs = ([], Some (h, rs))"
| "prompt (q # qs) h rs =
     (if qwhen q h then
        (case ask (qkind q) rs of
           (evs, None) \<Rightarrow> (Prompted (qname q) # evs, None)
         | (evs, Some (x, rs')) \<Rightarrow>
             (Prompted (qname q) # evs @ fst (prompt qs (h(qname q \<mapsto> x)) rs'),
              snd (prompt qs (h(qname q \<mapsto> x)) rs')))
      else prompt qs h rs)"

subsection \<open>The new project wizard\<close>

definition validateName :: "env \<Rightarrow> string \<Rightarrow> jsval" where
  "validateName e nm =
     (if \<not> match_plus name_char nm then JStr ''The project name can only have letters, numbers and dashes''
      else if existsSync e nm then JStr ''The directory already exists.''
      else JBool True)"

definition nameQuestion :: "env \<Rightarrow> question" where
  "nameQuestion e =
     \<lparr>qname = ''projectName'', qmessage = ''What is the name of the project?'',
      qkind = Input [] (validateName e), qwhen = (\<lambda>_. True)\<rparr>"

definition validateProxy :: "env \<Rightarrow> string \<Rightarrow> jsval" where
  "validateProxy e inp =
     (if \<not> isValidProxyUrl e (JStr inp) then JStr ''The URL must look like the following: protocol://hostname:port''
      else JBool True)"

definition proxyQuestion :: "env \<Rightarrow> question" where
  "proxyQuestion e =
     \<lparr>qname = ''proxy'', qmessage = ''What is the URL of your M3 environment?'',
      qkind = Input ''https://example.com:8080'' (validateProxy e), qwhen = (\<lambda>_. True)\<rparr>"

definition frameworkQuestion :: question where
  "frameworkQuestion =
     \<lparr>qname = ''framework'', qmessage = ''Which view framework do you want to use?'',
      qkind = ListQ [(''Angular'', ''angular''), (''None'', ''none'')] (JStr ''angular''),
      qwhen = (\<lambda>_. True)\<rparr>"

definition styleQuestion :: question where
  "styleQuestion =
     \<lparr>qname = ''style'', qmessage = ''Which style library do you want to use?'',
      qkind = ListQ [(''SoHo (Infor Design System)'', ''soho''), (''Material Design'', ''material''),
                     (''None'', ''none'')] (JStr ''soho''),
      qwhen = (\<lambda>_. True)\<rparr>"

definition gitQuestion :: question where
  "gitQuestion =
     \<lparr>qname = ''git'', qmessage = ''Should Git be used for the project?'',
      qkind = Confirm True, qwhen = (\<lambda>_. True)\<rparr>"

definition installQuestion :: question where
  "installQuestion =
     \<lparr>qname = ''install'', qmessage = ''Should dependencies be installed? This can take a while.'',
      qkind = Confirm False, qwhen = (\<lambda>_. True)\<rparr>"

definition newQuestions :: "env \<Rightarrow> question list" where
  "newQuestions e =
     [nameQuestion e, frameworkQuestion, styleQuestion, proxyQuestion e, gitQuestion, installQuestion]"

definition newProjectOptions :: "answers \<Rightarrow> INewProjectOptions" where
  "newProjectOptions h =
     \<lparr>name = field h ''projectName'',
      style = field h ''style'',
      angular = Some (JBool (field h ''framework'' = JStr ''angular'')),
      proxy = Some \<lparr>target = field h ''proxy''\<rparr>,
      install = Some (field h ''install''),
      git = Some (field h ''git'')\<rparr>"

definition inquireNewProject :: "env \<Rightarrow> response list \<Rightarrow> run" where
  "inquireNewProject e rs =
     (case prompt (newQuestions e) Map.empty rs of
        (evs, None) \<Rightarrow> (evs, Interrupted)
      | (evs, Some (h, rs')) \<Rightarrow> after evs (wrapNew e (newProjectOptions h)))"

subsection \<open>The serve wizard\<close>

definition validatePort :: "string \<Rightarrow> jsval" where
  "validatePort p =
     (if \<not> match_plus digit p then JStr ''The port must be a number, e.g 8080'' else JBool True)"

definition portQuestion :: question where
  "portQuestion =
     \<lparr>qname = ''port'', qmessage = ''Which port should be used?'',
      qkind = Input ''8080'' validatePort, qwhen = (\<lambda>_. True)\<rparr>"

definition mtQuestion :: question where
  "mtQuestion =
     \<lparr>qname = ''multiTenant'', qmessage = ''Enable Multi-Tenant proxy?'',
      qkind = Confirm False, qwhen = (\<lambda>_. True)\<rparr>"

definition ionQuestion :: question where
  "ionQuestion =
     \<lparr>qname = ''ionApi'', qmessage = ''Use ION API for Multi-Tenant proxy requests?'',
      qkind = Confirm False, qwhen = (\<lambda>previousAnswers. truthy (field previousAnswers ''multiTenant''))\<rparr>"

definition serveQuestions :: "question list" where
  "serveQuestions = [portQuestion, mtQuestion, ionQuestion]"

definition serveOptions :: "answers \<Rightarrow> IServeOptions" where
  "serveOptions h =
     \<lparr>port = Numeric (parseInt (field h ''port'')),
      multiTenant = truthy (field h ''multiTenant''),
      ionApi = truthy (field h ''ionApi'')\<rparr>"

definition inquireServeProject :: "env \<Rightarrow> response list \<Rightarrow> run" where
  "inquireServeProject e rs =
     (case prompt serveQuestions Map.empty rs of
        (evs, None) \<Rightarrow> (evs, Interrupted)
      | (evs, Some (h, rs')) \<Rightarrow> after evs (wrapServe e (serveOptions h)))"

subsection \<open>The top-level wizard\<close>

definition commandQuestion :: question where
  "commandQuestion =
     \<lparr>qname = ''command'', qmessage = ''What do you want to do?'',
      qkind = ListQ [(''Create new project'', ''new''), (''Start development server'', ''serve''),
                     (''Build project for production'', ''build'')] JUndef,
      qwhen = (\<lambda>_. True)\<rparr>"

text \<open>
  The \<open>build\<close> branch calls the collaborator and neither awaits it nor attaches a handler.
\<close>

definition inquireCommand :: "env \<Rightarrow> response list \<Rightarrow> run" where
  "inquireCommand e rs =
     (case prompt [commandQuestion] Map.empty rs of
        (evs, None) \<Rightarrow> (evs, Interrupted)
      | (evs, Some (commandAnswers, rs')) \<Rightarrow>
          after evs
            (if field commandAnswers ''command'' = JStr ''new'' then inquireNewProject e rs'
             else if field commandAnswers ''command'' = JStr ''serve'' then inquireServeProject e rs'
             else if field commandAnswers ''command'' = JStr ''build'' then
               ([Call BuildProject], case buildProject e of Succeeds \<Rightarrow> Finished | Fails error \<Rightarrow> Unhandled error)
             else ([], Finished)))"

subsection \<open>The command actions\<close>

text \<open>
  An action receives what commander has parsed: the operands of the command and the bag
  of its flags, keyed by the camel-cased long name. A flag that was not given is a missing
  key; a boolean flag is \<open>true\<close>; \<open>--port <port>\<close> holds the argument as a string;
  \<open>--proxy [url]\<close> holds the string, or \<open>true\<close> when no argument follows.
\<close>

definition newAction :: "env \<Rightarrow> response list \<Rightarrow> jsval \<Rightarrow> answers \<Rightarrow> run" where
  "newAction e rs projectName options =
     (if \<not> truthy projectName then inquireNewProject e rs
      else
        let newOptions = \<lparr>name = projectName, style = JStr ''none'', angular = None, proxy = None,
                          install = None, git = None\<rparr>
        in if truthy (field options ''proxy'') \<and> \<not> isValidProxyUrl e (field options ''proxy'') then
             exit (JStr (''Proxy url '' @ [CHR 0x27] @ to_string (field options ''proxy'') @ [CHR 0x27]
                         @ '' is invalid. It should be of the format: protocol://hostname:port'')) True
           else
             let newOptions = (if truthy (field options ''proxy'')
                               then newOptions\<lparr>proxy := Some \<lparr>target = field options ''proxy''\<rparr>\<rparr>
                               else newOptions);
                 newOptions = (if truthy (field options ''material'') then newOptions\<lparr>style := JStr ''material''\<rparr>
                               else if truthy (field options ''soho'') then newOptions\<lparr>style := JStr ''soho''\<rparr>
                               else newOptions\<lparr>style := JStr ''none''\<rparr>);
                 newOptions = (if truthy (field options ''skipGit'') then newOptions\<lparr>git := Some (JBool False)\<rparr>
                               else newOptions\<lparr>git := Some (JBool True)\<rparr>);
                 newOptions = (if truthy (field options ''angular'') then newOptions\<lparr>angular := Some (JBool True)\<rparr>
                               else newOptions);
                 newOptions = (if truthy (field options ''install'') then newOptions\<lparr>install := Some (JBool True)\<rparr>
                               else newOptions)
             in wrapNew e newOptions)"

definition serveAction :: "env \<Rightarrow> answers \<Rightarrow> run" where
  "serveAction e options =
     wrapServe e \<lparr>port = (if truthy (field options ''port'') then Raw (field options ''port'')
                          else Numeric (Num 8080)),
                  multiTenant = truthy (field options ''multiTenant''),
                  ionApi = truthy (field options ''ionApi'')\<rparr>"

definition buildAction :: "env \<Rightarrow> run" where
  "buildAction e =
     (if \<not> existsSync e ''odin.json'' then exit (JStr ''Could not find an Odin configuration file.'') False
      else after [ConsoleLog [JStr ''Building project...''], Call BuildProject]
        (case buildProject e of
           Succeeds \<Rightarrow> ([ConsoleLog [JStr ''Project built successfully'']], Finished)
         | Fails error \<Rightarrow> ([ConsoleError [JStr ''Build failed:'', error]], Finished)))"

definition setAction :: "env \<Rightarrow> string \<Rightarrow> string \<Rightarrow> run" where
  "setAction e key val =
     after [Call (SetConfiguration key val)]
       (case setConfiguration e key val of
          Succeeds \<Rightarrow> ([], Finished)
        | Fails error \<Rightarrow> after [ConsoleError [error]] (exit (JStr ''Configuration failed'') False))"

text \<open>The call of \<open>login\<close> is awaited outside any \<open>try\<close>.\<close>

definition loginAction :: "env \<Rightarrow> run" where
  "loginAction e =
     after [ConsoleLog [JStr ''Logging in to the configured environment. A separate browser window will open with the login screen.''],
            Call Login]
       (case login e of
          Succeeds \<Rightarrow>
            ([ConsoleLog [JStr (''Done! You can now start the development server with '' @ [CHR 0x27]
                                @ ''odin serve --multi-tenant'' @ [CHR 0x27])]], Finished)
        | Fails error \<Rightarrow> ([], Unhandled error))"

text \<open>
  The handler of the event \<open>command:*\<close> takes the first element of the operand list it
  is given, which is \<open>undefined\<close> for an empty list.
\<close>

definition unknownCommand :: "string list \<Rightarrow> run" where
  "unknownCommand args =
     (let command = (case args of [] \<Rightarrow> JUndef | c # _ \<Rightarrow> JStr c)
      in exit (JStr (''Unknown command '' @ [CHR 0x27] @ to_string command @ [CHR 0x27])) True)"

subsection \<open>The command router\<close>

text \<open>
  A command line with arguments is its first operand, the command token, the operands
  after it and the flag bag. Commander 2.x looks for a listener of the event
  \<open>command:\<close> followed by the token. For a registered command it removes the token and
  runs the action with the operands after it: an operand that the command declares
  optional and that is missing is \<open>undefined\<close>, a missing required one makes commander
  report it and exit with status 1. For a token without listener it raises the event
  \<open>command:*\<close> with the whole operand list, token first. The token \<open>*\<close> itself has a
  listener, the program's handler of \<open>command:*\<close>, so it is removed like the name of a
  command and the handler gets the operands after it.

  With no argument at all the script starts the top-level wizard and commander finds
  nothing to run. Command lines made of flags only (\<open>--help\<close>, \<open>--version\<close>) are
  answered by commander alone and are not part of the embedding, nor is the search for an
  executable subcommand that commander 2.x starts, after the action, for the operand
  \<open>__proto__\<close>.
\<close>

record cmdline =
  token :: string
  operands :: "string list"
  flags :: answers

definition commandNames :: "string list" where
  "commandNames = [''new'', ''serve'', ''build'', ''set'', ''login'']"

definition main :: "env \<Rightarrow> response list \<Rightarrow> cmdline option \<Rightarrow> run" where
  "main e rs argv =
     (case argv of
        None \<Rightarrow> inquireCommand e rs
      | Some cl \<Rightarrow>
          if token cl = ''new'' then
            newAction e rs (case operands cl of [] \<Rightarrow> JUndef | p # _ \<Rightarrow> JStr p) (flags cl)
          else if token cl = ''serve'' then serveAction e (flags cl)
          else if token cl = ''build'' then buildAction e
          else if token cl = ''set'' then
            (case operands cl of
               key # val # _ \<Rightarrow> setAction e key val
             | [key] \<Rightarrow> ([MissingArgument ''value''], Exited 1)
             | [] \<Rightarrow> ([MissingArgument ''key''], Exited 1))
          else if token cl = ''login'' then loginAction e
          else if token cl = ''*'' then unknownCommand (operands cl)
          else unknownCommand (token cl # operands cl))"

subsection \<open>A sample world\<close>

text \<open>
  Concrete runs need a concrete world: the given paths exist, every collaborator
  succeeds, and the stand-in for the URL check of \<open>./utils\<close> accepts the strings that
  start with \<open>https://\<close>. A failing collaborator is a record update of it.
\<close>

definition sample_env :: "string list \<Rightarrow> env" where
  "sample_env files =
     \<lparr>existsSync = (\<lambda>p. p \<in> set files),
      isValidProxyUrl = (\<lambda>v. case v of JStr s \<Rightarrow> take 8 s = ''https://'' \<and> 8 < length s | _ \<Rightarrow> False),
      newProject = (\<lambda>_. Succeeds),
      serveProject = (\<lambda>_. Succeeds),
      buildProject = Succeeds,
      setConfiguration = (\<lambda>_ _. Succeeds),
      login = Succeeds\<rparr>"

section \<open>The anchored patterns\<close>

text \<open>A string matches \<open>^C+$\<close> exactly when it is not empty and all its characters are in the class.\<close>

lemma match_plus_iff: "match_plus C s \<longleftrightarrow> s \<noteq> [] \<and> (\<forall>c \<in> set s. C c)"
  by (induction s) auto

section \<open>Properties of the prompting library\<close>

text \<open>
  A prompt emits nothing but its own events, an accepted value has passed \<open>validate\<close>
  and has the type of its question, and a completed sequence has asked every question
  whose \<open>when\<close> held.
\<close>

lemma ask_events: "ev \<in> set (fst (ask k rs)) \<Longrightarrow> \<exists>m. ev = PromptError m"
  by (induction rs arbitrary: k) (auto split: option.splits if_splits)

lemma verdict_resubmit: "verdict (resubmit k) x = verdict k x"
  by (cases k; cases x) simp_all

lemma ask_accepted:
  "ask k rs = (evs, Some (x, rs')) \<Longrightarrow> verdict k x = JBool True"
proof (induction rs arbitrary: k evs)
  case Nil
  then show ?case by simp
next
  case (Cons r rs)
  show ?case
  proof (cases "read_value k r")
    case None
    with Cons show ?thesis by simp
  next
    case (Some y)
    show ?thesis
    proof (cases "verdict k y = JBool True")
      case True
      with Some Cons.prems show ?thesis by simp
    next
      case False
      with Some Cons.prems have "snd (ask (resubmit k) rs) = Some (x, rs')" by simp
      then have "ask (resubmit k) rs = (fst (ask (resubmit k) rs), Some (x, rs'))"
        by (simp add: prod_eq_iff)
      from Cons.IH[OF this] show ?thesis by (simp add: verdict_resubmit)
    qed
  qed
qed

lemma read_confirm: "read_value (Confirm d) r = Some x \<Longrightarrow> \<exists>b. x = JBool b"
  by (cases r) auto

lemma read_input: "read_value (Input d v) r = Some x \<Longrightarrow> \<exists>s. x = JStr s"
  by (cases r) auto

lemma highlighted_choice: "highlighted cs d = Some x \<Longrightarrow> \<exists>c \<in> set cs. x = JStr (snd c)"
proof (cases "filter (\<lambda>c. JStr (snd c) = d) cs")
  case Nil
  assume "highlighted cs d = Some x"
  with Nil show ?thesis by (cases cs) (auto simp: highlighted_def)
next
  case (Cons c cs')
  assume h: "highlighted cs d = Some x"
  from Cons have "c \<in> set (filter (\<lambda>c. JStr (snd c) = d) cs)" by simp
  then have "c \<in> set cs" by simp
  with h Cons show ?thesis by (auto simp: highlighted_def)
qed

lemma read_list: "read_value (ListQ cs d) r = Some x \<Longrightarrow> \<exists>c \<in> set cs. x = JStr (snd c)"
  by (cases r) (auto dest: highlighted_choice split: if_splits)

lemma ask_confirm: "ask (Confirm d) rs = (evs, Some (x, rs')) \<Longrightarrow> \<exists>b. x = JBool b"
proof (induction rs arbitrary: evs)
  case Nil
  then show ?case by simp
next
  case (Cons r rs)
  show ?case
  proof (cases "read_value (Confirm d) r")
    case None
    with Cons show ?thesis by simp
  next
    case (Some y)
    then obtain b where b: "y = JBool b" by (auto dest: read_confirm)
    with Some Cons.prems have "x = y" by simp
    with b show ?thesis by simp
  qed
qed

lemma ask_input: "ask (Input d v) rs = (evs, Some (x, rs')) \<Longrightarrow> \<exists>s. x = JStr s \<and> v s = JBool True"
proof -
  assume a: "ask (Input d v) rs = (evs, Some (x, rs'))"
  have str: "\<And>d rs evs. ask (Input d v) rs = (evs, Some (x, rs')) \<Longrightarrow> \<exists>s. x = JStr s"
  proof -
    fix d rs evs
    show "ask (Input d v) rs = (evs, Some (x, rs')) \<Longrightarrow> \<exists>s. x = JStr s"
    proof (induction rs arbitrary: d evs)
      case Nil
      then show ?case by simp
    next
      case (Cons r rs)
      show ?case
      proof (cases "read_value (Input d v) r")
        case None
        with Cons show ?thesis by simp
      next
        case (Some y)
        show ?thesis
        proof (cases "verdict (Input d v) y = JBool True")
          case True
          with Some Cons.prems have "x = y" by simp
          with Some show ?thesis by (auto dest: read_input)
        next
          case False
          with Some Cons.prems have "snd (ask (Input [] v) rs) = Some (x, rs')" by simp
          then have "ask (Input [] v) rs = (fst (ask (Input [] v) rs), Some (x, rs'))"
            by (simp add: prod_eq_iff)
          from Cons.IH[OF this] show ?thesis .
        qed
      qed
    qed
  qed
  from str[OF a] obtain s where s: "x = JStr s" by blast
  from ask_accepted[OF a] s have "v s = JBool True" by simp
  with s show ?thesis by simp
qed

lemma ask_list: "ask (ListQ cs d) rs = (evs, Some (x, rs')) \<Longrightarrow> \<exists>c \<in> set cs. x = JStr (snd c)"
proof (induction rs arbitrary: evs)
  case Nil
  then show ?case by simp
next
  case (Cons r rs)
  show ?case
  proof (cases "read_value (ListQ cs d) r")
    case None
    with Cons show ?thesis by simp
  next
    case (Some y)
    with Cons.prems have "x = y" by simp
    with Some show ?thesis by (auto dest: read_list)
  qed
qed

lemma prompt_asked:
  assumes "prompt (q # qs) h rs = (evs, Some (h', rs'))" and "qwhen q h"
  shows "\<exists>e1 x r1 e2. ask (qkind q) rs = (e1, Some (x, r1))
           \<and> prompt qs (h(qname q \<mapsto> x)) r1 = (e2, Some (h', rs'))
           \<and> evs = Prompted (qname q) # e1 @ e2"
  using assms
  by (cases "ask (qkind q) rs"; cases "snd (ask (qkind q) rs)")
     (auto split: option.splits prod.splits simp: prod_eq_iff)

lemma prompt_skipped: "\<not> qwhen q h \<Longrightarrow> prompt (q # qs) h rs = prompt qs h rs"
  by simp

lemma prompt_keeps:
  "prompt qs h rs = (evs, Some (h', rs')) \<Longrightarrow> k \<notin> qname ` set qs \<Longrightarrow> h' k = h k"
proof (induction qs arbitrary: h rs evs)
  case Nil
  then show ?case by simp
next
  case (Cons q qs)
  show ?case
  proof (cases "qwhen q h")
    case True
    from prompt_asked[OF Cons.prems(1) True] obtain x r1 e2 where
      "prompt qs (h(qname q \<mapsto> x)) r1 = (e2, Some (h', rs'))" by blast
    from Cons.IH[OF this] Cons.prems(2) show ?thesis by simp
  next
    case False
    with Cons show ?thesis by simp
  qed
qed

lemma ask_events_of: "ask k rs = (evs, r) \<Longrightarrow> ev \<in> set evs \<Longrightarrow> \<exists>m. ev = PromptError m"
  using ask_events[of ev k rs] by simp

lemma prompt_events:
  "ev \<in> set (fst (prompt qs h rs)) \<Longrightarrow> (\<exists>n. ev = Prompted n) \<or> (\<exists>m. ev = PromptError m)"
proof (induction qs arbitrary: h rs)
  case Nil
  then show ?case by simp
next
  case (Cons q qs)
  show ?case
  proof (cases "qwhen q h")
    case False
    with Cons show ?thesis by simp
  next
    case True
    obtain a r where a: "ask (qkind q) rs = (a, r)" by (cases "ask (qkind q) rs")
    show ?thesis
    proof (cases r)
      case None
      with Cons.prems True a have "ev = Prompted (qname q) \<or> ev \<in> set a" by simp
      with a show ?thesis by (auto dest: ask_events_of)
    next
      case (Some y)
      obtain x r1 where y: "y = (x, r1)" by (cases y)
      with Cons.prems True a Some
      have "ev = Prompted (qname q) \<or> ev \<in> set a
            \<or> ev \<in> set (fst (prompt qs (h(qname q \<mapsto> x)) r1))" by auto
      with a Cons.IH show ?thesis by (auto dest: ask_events_of)
    qed
  qed
qed

lemma prompt_answered:
  "qwhen q h \<Longrightarrow> ask (qkind q) rs = (e1, Some (x, r1)) \<Longrightarrow>
   prompt (q # qs) h rs
     = (Prompted (qname q) # e1 @ fst (prompt qs (h(qname q \<mapsto> x)) r1),
        snd (prompt qs (h(qname q \<mapsto> x)) r1))"
  by simp

lemma prompt_left:
  "qwhen q h \<Longrightarrow> ask (qkind q) rs = (e1, None) \<Longrightarrow>
   prompt (q # qs) h rs = (Prompted (qname q) # e1, None)"
  by simp

section \<open>Calls made by the wrappers\<close>

lemma exit_calls: "Call c \<notin> set (fst (exit m b))"
  by (simp add: exit_def)

lemma wrapNew_calls: "Call c \<in> set (fst (wrapNew e opts)) \<longleftrightarrow> c = NewProject opts"
  by (cases "newProject e opts") (auto simp: wrapNew_def after_def exit_def)

lemma wrapServe_calls: "Call c \<in> set (fst (wrapServe e opts)) \<Longrightarrow> c = ServeProject opts"
  by (cases "serveProject e opts") (auto simp: wrapServe_def after_def exit_def split: if_splits)

lemma wrapNew_failure:
  "newProject e opts = Fails err \<Longrightarrow>
   wrapNew e opts = ([Call (NewProject opts), ConsoleError [err],
                      ConsoleError [JStr ''ERROR:'', JStr ''Failed to create new project'']], Exited 1)"
  by (simp add: wrapNew_def after_def exit_def)

lemma wrapServe_failure:
  "existsSync e ''odin.json'' \<Longrightarrow> serveProject e opts = Fails err \<Longrightarrow>
   wrapServe e opts = ([ConsoleLog [JStr ''Starting Dev Server...''], Call (ServeProject opts),
                        ConsoleError [err],
                        ConsoleError [JStr ''ERROR:'', JStr ''Serving was aborted because of an error'']], Exited 1)"
  by (simp add: wrapServe_def after_def exit_def)

lemma setAction_failure:
  "setConfiguration e key val = Fails err \<Longrightarrow>
   setAction e key val = ([Call (SetConfiguration key val), ConsoleError [err],
                           ConsoleError [JStr ''ERROR:'', JStr ''Configuration failed'']], Exited 1)"
  by (simp add: setAction_def after_def exit_def)

lemma wrapServe_prompts: "Prompted n \<notin> set (fst (wrapServe e opts))"
  by (cases "serveProject e opts") (auto simp: wrapServe_def after_def exit_def)

section \<open>Failures of the collaborators\<close>

text \<open>
  The two wrappers and the \<open>set\<close> action report a failing collaborator in one way: the
  error, the summary line, exit status 1, no help text (the three lemmas above). The
  \<open>build\<close> action and the \<open>login\<close> action do not.
\<close>

text \<open>
  C1. Claim: whenever a collaborator call (newProject, serveProject, buildProject, login,
  setConfiguration) raises an error, the process prints the error detail and a fixed
  failure summary, ends with a non-zero exit status and prints no help text. The runs
  below show what the code does for buildProject and login. With the marker file present
  and a failing build, \<open>odin build\<close> prints \<open>Build failed:\<close> with the error and the
  script ends without a call of \<open>exit\<close>, so with status 0. With a failing login,
  \<open>odin login\<close> prints nothing after the call: the rejection reaches no handler of the
  program. The build choice of the top-level wizard has no handler either.
\<close>

theorem build_and_login_failures_not_terminal:
  "main (sample_env [''odin.json''] \<lparr>buildProject := Fails (JStr ''bundler crashed'')\<rparr>) []
        (Some \<lparr>token = ''build'', operands = [], flags = Map.empty\<rparr>)
     = ([ConsoleLog [JStr ''Building project...''], Call BuildProject,
         ConsoleError [JStr ''Build failed:'', JStr ''bundler crashed'']], Finished)
 \<and> main (sample_env [''odin.json''] \<lparr>login := Fails (JStr ''denied'')\<rparr>) []
        (Some \<lparr>token = ''login'', operands = [], flags = Map.empty\<rparr>)
     = ([ConsoleLog [JStr ''Logging in to the configured environment. A separate browser window will open with the login screen.''],
         Call Login], Unhandled (JStr ''denied''))
 \<and> main (sample_env [''odin.json''] \<lparr>buildProject := Fails (JStr ''bundler crashed'')\<rparr>)
        [Selected 2] None
     = ([Prompted ''command'', Call BuildProject], Unhandled (JStr ''bundler crashed''))"
  by (simp add: main_def buildAction_def loginAction_def inquireCommand_def commandQuestion_def
      after_def sample_env_def field_def)

section \<open>The port of the serve options\<close>

lemma serve_no_flags:
  "main e rs (Some \<lparr>token = ''serve'', operands = args, flags = Map.empty\<rparr>)
     = wrapServe e \<lparr>port = Numeric (Num 8080), multiTenant = False, ionApi = False\<rparr>"
  by (simp add: main_def serveAction_def field_def)

lemma space_sequences_head: "w \<in> set space_sequences \<Longrightarrow> w \<noteq> [] \<and> \<not> digit (hd w)"
  unfolding space_sequences_def digit_def in_range_def by (simp, elim disjE) simp_all

lemma digit_not_space:
  assumes "digit c"
  shows "space_length (c # cs) = 0"
proof -
  have "\<forall>w \<in> set space_sequences. take (length w) (c # cs) \<noteq> w"
  proof
    fix w
    assume w: "w \<in> set space_sequences"
    show "take (length w) (c # cs) \<noteq> w"
    proof
      assume t: "take (length w) (c # cs) = w"
      from space_sequences_head[OF w] obtain a w' where a: "w = a # w'" "\<not> digit a"
        by (cases w) auto
      with t have "a = c" by simp
      with a assms show False by simp
    qed
  qed
  then have "filter (\<lambda>w. take (length w) (c # cs) = w) space_sequences = []"
    by (simp add: filter_empty_conv)
  then show ?thesis by (simp add: space_length_def)
qed

lemma digit_not_sign: "digit c \<Longrightarrow> c \<noteq> CHR ''-'' \<and> c \<noteq> CHR ''+''"
  by (auto simp: digit_def in_range_def)

lemma parseInt_digits:
  assumes "match_plus digit s"
  shows "parseInt (JStr s) = to_number (int (digits_value 0 s))"
proof -
  from assms have ne: "s \<noteq> []" and all: "\<forall>c \<in> set s. digit c" by (simp_all add: match_plus_iff)
  then obtain c cs where s: "s = c # cs" by (cases s) auto
  with all have c: "digit c" by simp
  from all have tw: "takeWhile digit s = s" by (simp add: takeWhile_eq_all_conv)
  from c s have dw: "skip_space s = s" by (simp add: digit_not_space)
  have pd: "parse_digits s = Some (digits_value 0 s)"
    unfolding parse_digits_def Let_def tw using ne by simp
  from c have "c \<noteq> CHR ''-''" "c \<noteq> CHR ''+''" by (simp_all add: digit_not_sign)
  with dw pd s show ?thesis by (simp add: parseInt_def)
qed

lemma serve_wizard_port:
  assumes "Call (ServeProject opts) \<in> set (fst (inquireServeProject e rs))"
  shows "\<exists>n. port opts = Numeric (Num (int n)) \<or> port opts = Numeric (Approx (int n))"
proof -
  obtain evs r where p: "prompt serveQuestions Map.empty rs = (evs, r)"
    by (cases "prompt serveQuestions Map.empty rs")
  have noc: "Call (ServeProject opts) \<notin> set evs"
    using prompt_events[of "Call (ServeProject opts)" serveQuestions Map.empty rs] p by auto
  show ?thesis
  proof (cases r)
    case None
    with assms p noc show ?thesis by (simp add: inquireServeProject_def)
  next
    case (Some y)
    obtain h rs' where y: "y = (h, rs')" by (cases y)
    with assms p Some noc have "Call (ServeProject opts) \<in> set (fst (wrapServe e (serveOptions h)))"
      by (simp add: inquireServeProject_def after_def)
    then have o: "opts = serveOptions h" by (auto dest: wrapServe_calls)
    from p Some y have ps: "prompt serveQuestions Map.empty rs = (evs, Some (h, rs'))" by simp
    have w: "qwhen portQuestion Map.empty" by (simp add: portQuestion_def)
    from prompt_asked[OF ps[unfolded serveQuestions_def] w] obtain e1 x r1 f1 where
      a: "ask (qkind portQuestion) rs = (e1, Some (x, r1))"
      and p1: "prompt [mtQuestion, ionQuestion] (Map.empty(qname portQuestion \<mapsto> x)) r1 = (f1, Some (h, rs'))"
      by blast
    have "''port'' \<notin> qname ` set [mtQuestion, ionQuestion]"
      by (simp add: mtQuestion_def ionQuestion_def)
    from prompt_keeps[OF p1 this] have hp: "h ''port'' = Some x" by (simp add: portQuestion_def)
    from a obtain s where "x = JStr s" "validatePort s = JBool True"
      using ask_input[of "''8080''" validatePort rs e1 x r1] by (auto simp: portQuestion_def)
    then have "x = JStr s" "match_plus digit s" by (simp_all add: validatePort_def split: if_splits)
    with hp o show ?thesis by (auto simp: serveOptions_def field_def parseInt_digits to_number_def)
  qed
qed

text \<open>
  C2. Claim: the serve options handed to serveProject always carry a definite port: 8080
  when no port was given, never a raw string in the flag path, an integer in the wizard
  path; \<open>odin serve\<close> without flags dispatches port 8080 with both booleans false. The
  lemmas above prove the default, and that the wizard path hands over a number. In the
  flag path the source writes \<open>options.port || 8080\<close>, and commander stores the argument
  of \<open>--port\<close> as the string it read: the run of \<open>odin serve --port 3000\<close> below hands
  serveProject the string \<open>3000\<close>, not the number.
\<close>

theorem serve_flag_port_raw_string:
  "main (sample_env [''odin.json'']) []
        (Some \<lparr>token = ''serve'', operands = [], flags = [''port'' \<mapsto> JStr ''3000'']\<rparr>)
     = ([ConsoleLog [JStr ''Starting Dev Server...''],
         Call (ServeProject \<lparr>port = Raw (JStr ''3000''), multiTenant = False, ionApi = False\<rparr>)], Finished)"
  by (simp add: main_def serveAction_def wrapServe_def after_def sample_env_def field_def)

section \<open>The project marker file\<close>

lemma build_flag_requires_marker:
  "\<not> existsSync e ''odin.json'' \<Longrightarrow>
   main e rs (Some \<lparr>token = ''build'', operands = args, flags = fl\<rparr>)
     = ([ConsoleError [JStr ''ERROR:'', JStr ''Could not find an Odin configuration file.'']], Exited 1)"
  by (simp add: main_def buildAction_def exit_def)

text \<open>
  C3. Claim: on every path to a build, the \<open>build\<close> command and the build choice of the
  top-level wizard, a working directory without \<open>odin.json\<close> means that buildProject is
  never invoked and the process exits with status 1 and no help text. The \<open>build\<close>
  command does so (the lemma above). The wizard branch calls buildProject without looking
  for the file: in a directory with no file at all, choosing the third entry of the
  command list invokes the collaborator and the script ends with status 0.
\<close>

theorem wizard_build_skips_marker:
  "\<not> existsSync (sample_env []) ''odin.json''
 \<and> main (sample_env []) [Selected 2] None = ([Prompted ''command'', Call BuildProject], Finished)"
  by (simp add: main_def inquireCommand_def commandQuestion_def after_def sample_env_def field_def)

section \<open>The serve wizard\<close>

text \<open>
  C4. In the serve wizard, take any run in which the port question has been answered and
  the multi-tenant question is answered with \<open>x\<close>, which is one of the two booleans. If
  \<open>x\<close> is false, the sequence is complete after these two questions: the answer hash
  holds \<open>port\<close> and \<open>multiTenant\<close> and no key \<open>ionApi\<close>, the wizard goes on to
  \<open>wrapServe\<close> with \<open>ionApi\<close> false, and the ion-api question is asked nowhere in the
  run. If \<open>x\<close> is true, the ion-api question is asked, and for whatever answer \<open>i\<close>
  the user gives to it the hash holds \<open>i\<close> under \<open>ionApi\<close> and the wizard hands
  \<open>wrapServe\<close> the truth value of \<open>i\<close>.
\<close>

theorem serve_wizard_ionApi:
  assumes "ask (qkind portQuestion) rs = (e1, Some (p, r1))"
    and "ask (qkind mtQuestion) r1 = (e2, Some (x, r2))"
  shows "(x = JBool False \<or> x = JBool True)
       \<and> (x = JBool False \<longrightarrow>
            prompt serveQuestions Map.empty rs
              = (Prompted ''port'' # e1 @ Prompted ''multiTenant'' # e2,
                 Some ([''port'' \<mapsto> p, ''multiTenant'' \<mapsto> JBool False], r2))
          \<and> ''ionApi'' \<notin> dom [''port'' \<mapsto> p, ''multiTenant'' \<mapsto> JBool False]
          \<and> inquireServeProject e rs
              = after (Prompted ''port'' # e1 @ Prompted ''multiTenant'' # e2)
                  (wrapServe e \<lparr>port = Numeric (parseInt p), multiTenant = False, ionApi = False\<rparr>)
          \<and> Prompted ''ionApi'' \<notin> set (fst (inquireServeProject e rs)))
       \<and> (x = JBool True \<longrightarrow>
            Prompted ''ionApi'' \<in> set (fst (inquireServeProject e rs))
          \<and> (\<forall>e3 i r3. ask (qkind ionQuestion) r2 = (e3, Some (i, r3)) \<longrightarrow>
                prompt serveQuestions Map.empty rs
                  = (Prompted ''port'' # e1 @ Prompted ''multiTenant'' # e2 @ Prompted ''ionApi'' # e3,
                     Some ([''port'' \<mapsto> p, ''multiTenant'' \<mapsto> JBool True, ''ionApi'' \<mapsto> i], r3))
              \<and> inquireServeProject e rs
                  = after (Prompted ''port'' # e1 @ Prompted ''multiTenant'' # e2 @ Prompted ''ionApi'' # e3)
                      (wrapServe e \<lparr>port = Numeric (parseInt p), multiTenant = True, ionApi = truthy i\<rparr>)))"
proof -
  have names: "qname portQuestion = ''port''" "qname mtQuestion = ''multiTenant''"
    "qname ionQuestion = ''ionApi''"
    by (simp_all add: portQuestion_def mtQuestion_def ionQuestion_def)
  have w1: "qwhen portQuestion Map.empty" by (simp add: portQuestion_def)
  have w2: "qwhen mtQuestion [''port'' \<mapsto> p]" by (simp add: mtQuestion_def)
  from assms(2) obtain m where x: "x = JBool m"
    using ask_confirm[of False r1 e2 x r2] by (auto simp: mtQuestion_def)
  have bool: "x = JBool False \<or> x = JBool True" using x by (cases m) simp_all
  have no1: "Prompted ''ionApi'' \<notin> set e1" using assms(1) by (auto dest: ask_events_of)
  have no2: "Prompted ''ionApi'' \<notin> set e2" using assms(2) by (auto dest: ask_events_of)
  have step2: "prompt [mtQuestion, ionQuestion] [''port'' \<mapsto> p] r1
      = (Prompted ''multiTenant'' # e2 @ fst (prompt [ionQuestion] [''port'' \<mapsto> p, ''multiTenant'' \<mapsto> x] r2),
         snd (prompt [ionQuestion] [''port'' \<mapsto> p, ''multiTenant'' \<mapsto> x] r2))"
    using prompt_answered[OF w2 assms(2), of "[ionQuestion]"] by (simp add: names)
  have step1: "prompt serveQuestions Map.empty rs
      = (Prompted ''port'' # e1 @ Prompted ''multiTenant'' # e2
           @ fst (prompt [ionQuestion] [''port'' \<mapsto> p, ''multiTenant'' \<mapsto> x] r2),
         snd (prompt [ionQuestion] [''port'' \<mapsto> p, ''multiTenant'' \<mapsto> x] r2))"
    using prompt_answered[OF w1 assms(1), of "[mtQuestion, ionQuestion]"] step2
    by (simp add: names serveQuestions_def)
  have no: "x = JBool False \<longrightarrow>
            prompt serveQuestions Map.empty rs
              = (Prompted ''port'' # e1 @ Prompted ''multiTenant'' # e2,
                 Some ([''port'' \<mapsto> p, ''multiTenant'' \<mapsto> JBool False], r2))
          \<and> ''ionApi'' \<notin> dom [''port'' \<mapsto> p, ''multiTenant'' \<mapsto> JBool False]
          \<and> inquireServeProject e rs
              = after (Prompted ''port'' # e1 @ Prompted ''multiTenant'' # e2)
                  (wrapServe e \<lparr>port = Numeric (parseInt p), multiTenant = False, ionApi = False\<rparr>)
          \<and> Prompted ''ionApi'' \<notin> set (fst (inquireServeProject e rs))"
  proof
    assume f: "x = JBool False"
    then have skip: "\<not> qwhen ionQuestion [''port'' \<mapsto> p, ''multiTenant'' \<mapsto> x]"
      by (simp add: ionQuestion_def field_def)
    have pr: "prompt serveQuestions Map.empty rs
              = (Prompted ''port'' # e1 @ Prompted ''multiTenant'' # e2,
                 Some ([''port'' \<mapsto> p, ''multiTenant'' \<mapsto> JBool False], r2))"
      using step1 skip f by simp
    have so: "serveOptions [''port'' \<mapsto> p, ''multiTenant'' \<mapsto> JBool False]
              = \<lparr>port = Numeric (parseInt p), multiTenant = False, ionApi = False\<rparr>"
      by (simp add: serveOptions_def field_def)
    have run: "inquireServeProject e rs
              = after (Prompted ''port'' # e1 @ Prompted ''multiTenant'' # e2)
                  (wrapServe e \<lparr>port = Numeric (parseInt p), multiTenant = False, ionApi = False\<rparr>)"
      by (simp add: inquireServeProject_def pr so)
    have "Prompted ''ionApi'' \<notin> set (fst (inquireServeProject e rs))"
      using no1 no2 wrapServe_prompts[of "''ionApi''" e] by (simp add: run after_def)
    with pr run show "prompt serveQuestions Map.empty rs
              = (Prompted ''port'' # e1 @ Prompted ''multiTenant'' # e2,
                 Some ([''port'' \<mapsto> p, ''multiTenant'' \<mapsto> JBool False], r2))
          \<and> ''ionApi'' \<notin> dom [''port'' \<mapsto> p, ''multiTenant'' \<mapsto> JBool False]
          \<and> inquireServeProject e rs
              = after (Prompted ''port'' # e1 @ Prompted ''multiTenant'' # e2)
                  (wrapServe e \<lparr>port = Numeric (parseInt p), multiTenant = False, ionApi = False\<rparr>)
          \<and> Prompted ''ionApi'' \<notin> set (fst (inquireServeProject e rs))"
      by simp
  qed
  have yes: "x = JBool True \<longrightarrow>
            Prompted ''ionApi'' \<in> set (fst (inquireServeProject e rs))
          \<and> (\<forall>e3 i r3. ask (qkind ionQuestion) r2 = (e3, Some (i, r3)) \<longrightarrow>
                prompt serveQuestions Map.empty rs
                  = (Prompted ''port'' # e1 @ Prompted ''multiTenant'' # e2 @ Prompted ''ionApi'' # e3,
                     Some ([''port'' \<mapsto> p, ''multiTenant'' \<mapsto> JBool True, ''ionApi'' \<mapsto> i], r3))
              \<and> inquireServeProject e rs
                  = after (Prompted ''port'' # e1 @ Prompted ''multiTenant'' # e2 @ Prompted ''ionApi'' # e3)
                      (wrapServe e \<lparr>port = Numeric (parseInt p), multiTenant = True, ionApi = truthy i\<rparr>))"
  proof
    assume t: "x = JBool True"
    then have w3: "qwhen ionQuestion [''port'' \<mapsto> p, ''multiTenant'' \<mapsto> x]"
      by (simp add: ionQuestion_def field_def)
    have asked: "Prompted ''ionApi'' \<in> set (fst (inquireServeProject e rs))"
    proof (cases "snd (ask (qkind ionQuestion) r2)")
      case None
      then have "ask (qkind ionQuestion) r2 = (fst (ask (qkind ionQuestion) r2), None)"
        by (simp add: prod_eq_iff)
      from prompt_left[OF w3 this, of "[]"] step1 show ?thesis
        by (simp add: inquireServeProject_def names)
    next
      case (Some y)
      obtain i r3 where "y = (i, r3)" by (cases y)
      with Some have "ask (qkind ionQuestion) r2 = (fst (ask (qkind ionQuestion) r2), Some (i, r3))"
        by (simp add: prod_eq_iff)
      from prompt_answered[OF w3 this, of "[]"] step1 show ?thesis
        by (simp add: inquireServeProject_def names after_def)
    qed
    have full: "\<forall>e3 i r3. ask (qkind ionQuestion) r2 = (e3, Some (i, r3)) \<longrightarrow>
                prompt serveQuestions Map.empty rs
                  = (Prompted ''port'' # e1 @ Prompted ''multiTenant'' # e2 @ Prompted ''ionApi'' # e3,
                     Some ([''port'' \<mapsto> p, ''multiTenant'' \<mapsto> JBool True, ''ionApi'' \<mapsto> i], r3))
              \<and> inquireServeProject e rs
                  = after (Prompted ''port'' # e1 @ Prompted ''multiTenant'' # e2 @ Prompted ''ionApi'' # e3)
                      (wrapServe e \<lparr>port = Numeric (parseInt p), multiTenant = True, ionApi = truthy i\<rparr>)"
    proof (intro allI impI)
      fix e3 i r3
      assume a3: "ask (qkind ionQuestion) r2 = (e3, Some (i, r3))"
      have pr: "prompt serveQuestions Map.empty rs
                  = (Prompted ''port'' # e1 @ Prompted ''multiTenant'' # e2 @ Prompted ''ionApi'' # e3,
                     Some ([''port'' \<mapsto> p, ''multiTenant'' \<mapsto> JBool True, ''ionApi'' \<mapsto> i], r3))"
        using prompt_answered[OF w3 a3, of "[]"] step1 t by (simp add: names)
      have so: "serveOptions [''port'' \<mapsto> p, ''multiTenant'' \<mapsto> JBool True, ''ionApi'' \<mapsto> i]
              = \<lparr>port = Numeric (parseInt p), multiTenant = True, ionApi = truthy i\<rparr>"
        by (simp add: serveOptions_def field_def)
      have "inquireServeProject e rs
                  = after (Prompted ''port'' # e1 @ Prompted ''multiTenant'' # e2 @ Prompted ''ionApi'' # e3)
                      (wrapServe e \<lparr>port = Numeric (parseInt p), multiTenant = True, ionApi = truthy i\<rparr>)"
        by (simp add: inquireServeProject_def pr so)
      with pr show "prompt serveQuestions Map.empty rs
                  = (Prompted ''port'' # e1 @ Prompted ''multiTenant'' # e2 @ Prompted ''ionApi'' # e3,
                     Some ([''port'' \<mapsto> p, ''multiTenant'' \<mapsto> JBool True, ''ionApi'' \<mapsto> i], r3))
              \<and> inquireServeProject e rs
                  = after (Prompted ''port'' # e1 @ Prompted ''multiTenant'' # e2 @ Prompted ''ionApi'' # e3)
                      (wrapServe e \<lparr>port = Numeric (parseInt p), multiTenant = True, ionApi = truthy i\<rparr>)"
        by simp
    qed
    from asked full show "Prompted ''ionApi'' \<in> set (fst (inquireServeProject e rs))
          \<and> (\<forall>e3 i r3. ask (qkind ionQuestion) r2 = (e3, Some (i, r3)) \<longrightarrow>
                prompt serveQuestions Map.empty rs
                  = (Prompted ''port'' # e1 @ Prompted ''multiTenant'' # e2 @ Prompted ''ionApi'' # e3,
                     Some ([''port'' \<mapsto> p, ''multiTenant'' \<mapsto> JBool True, ''ionApi'' \<mapsto> i], r3))
              \<and> inquireServeProject e rs
                  = after (Prompted ''port'' # e1 @ Prompted ''multiTenant'' # e2 @ Prompted ''ionApi'' # e3)
                      (wrapServe e \<lparr>port = Numeric (parseInt p), multiTenant = True, ionApi = truthy i\<rparr>))"
      by (rule conjI)
  qed
  from bool no yes show ?thesis by (intro conjI)
qed

theorem serve_wizard_ionApi_witness:
  "ask (qkind portQuestion) [Typed ''3000'', Typed ''n''] = ([], Some (JStr ''3000'', [Typed ''n'']))
 \<and> ask (qkind mtQuestion) [Typed ''n''] = ([], Some (JBool False, []))
 \<and> inquireServeProject (sample_env [''odin.json'']) [Typed ''3000'', Typed ''n'']
     = ([Prompted ''port'', Prompted ''multiTenant'', ConsoleLog [JStr ''Starting Dev Server...''],
         Call (ServeProject \<lparr>port = Numeric (Num 3000), multiTenant = False, ionApi = False\<rparr>)], Finished)
 \<and> Prompted ''ionApi'' \<notin> set (fst (inquireServeProject (sample_env [''odin.json'']) [Typed ''3000'', Typed ''n'']))
 \<and> ask (qkind portQuestion) [Typed [], Typed ''yes'', Typed ''y''] = ([], Some (JStr ''8080'', [Typed ''yes'', Typed ''y'']))
 \<and> ask (qkind mtQuestion) [Typed ''yes'', Typed ''y''] = ([], Some (JBool True, [Typed ''y'']))
 \<and> ask (qkind ionQuestion) [Typed ''y''] = ([], Some (JBool True, []))
 \<and> prompt serveQuestions Map.empty [Typed [], Typed ''yes'', Typed ''y'']
     = ([Prompted ''port'', Prompted ''multiTenant'', Prompted ''ionApi''],
        Some ([''port'' \<mapsto> JStr ''8080'', ''multiTenant'' \<mapsto> JBool True, ''ionApi'' \<mapsto> JBool True], []))
 \<and> inquireServeProject (sample_env [''odin.json'']) [Typed [], Typed ''yes'', Typed ''y'']
     = ([Prompted ''port'', Prompted ''multiTenant'', Prompted ''ionApi'',
         ConsoleLog [JStr ''Starting Dev Server...''],
         Call (ServeProject \<lparr>port = Numeric (Num 8080), multiTenant = True, ionApi = True\<rparr>)], Finished)"
proof -
  have p1: "ask (qkind portQuestion) [Typed ''3000'', Typed ''n''] = ([], Some (JStr ''3000'', [Typed ''n'']))"
    by (simp add: portQuestion_def validatePort_def digit_def in_range_def)
  have m1: "ask (qkind mtQuestion) [Typed ''n''] = ([], Some (JBool False, []))"
    by (simp add: mtQuestion_def says_yes_def)
  have p2: "ask (qkind portQuestion) [Typed [], Typed ''yes'', Typed ''y''] = ([], Some (JStr ''8080'', [Typed ''yes'', Typed ''y'']))"
    by (simp add: portQuestion_def validatePort_def digit_def in_range_def)
  have m2: "ask (qkind mtQuestion) [Typed ''yes'', Typed ''y''] = ([], Some (JBool True, [Typed ''y'']))"
    by (simp add: mtQuestion_def says_yes_def)
  have i2: "ask (qkind ionQuestion) [Typed ''y''] = ([], Some (JBool True, []))"
    by (simp add: ionQuestion_def says_yes_def)
  have n1: "parseInt (JStr ''3000'') = Num 3000"
    by (simp add: parseInt_def space_length_def space_sequences_def parse_digits_def digit_def
        in_range_def to_number_def)
  have n2: "parseInt (JStr ''8080'') = Num 8080"
    by (simp add: parseInt_def space_length_def space_sequences_def parse_digits_def digit_def
        in_range_def to_number_def)
  have w: "\<And>opts. wrapServe (sample_env [''odin.json'']) opts
             = ([ConsoleLog [JStr ''Starting Dev Server...''], Call (ServeProject opts)], Finished)"
    by (simp add: wrapServe_def after_def sample_env_def)
  from serve_wizard_ionApi[OF p1 m1, of "sample_env [''odin.json'']"]
       serve_wizard_ionApi[OF p2 m2, of "sample_env [''odin.json'']"]
       p1 m1 p2 m2 i2 n1 n2 w
  show ?thesis by (simp add: after_def)
qed

section \<open>The name of a new project\<close>

lemma inquireNewProject_calls:
  assumes "Call c \<in> set (fst (inquireNewProject e rs))"
  shows "\<exists>evs h rs'. prompt (newQuestions e) Map.empty rs = (evs, Some (h, rs'))
           \<and> c = NewProject (newProjectOptions h)"
proof -
  obtain evs r where p: "prompt (newQuestions e) Map.empty rs = (evs, r)"
    by (cases "prompt (newQuestions e) Map.empty rs")
  have noc: "Call c \<notin> set evs"
    using prompt_events[of "Call c" "newQuestions e" Map.empty rs] p by auto
  show ?thesis
  proof (cases r)
    case None
    with assms p noc show ?thesis by (simp add: inquireNewProject_def)
  next
    case (Some y)
    obtain h rs' where y: "y = (h, rs')" by (cases y)
    with assms p Some noc have "Call c \<in> set (fst (wrapNew e (newProjectOptions h)))"
      by (simp add: inquireNewProject_def after_def)
    then have "c = NewProject (newProjectOptions h)" by (simp only: wrapNew_calls)
    with p Some y show ?thesis by simp
  qed
qed

lemma new_prompt_name:
  assumes "prompt (newQuestions e) Map.empty rs = (evs, Some (h, rs'))"
  shows "\<exists>s. h ''projectName'' = Some (JStr s) \<and> s \<noteq> [] \<and> (\<forall>c \<in> set s. name_char c) \<and> \<not> existsSync e s"
proof -
  have w: "qwhen (nameQuestion e) Map.empty" by (simp add: nameQuestion_def)
  from prompt_asked[OF assms[unfolded newQuestions_def] w] obtain e1 x1 r1 f1 where
    a1: "ask (qkind (nameQuestion e)) rs = (e1, Some (x1, r1))"
    and p1: "prompt [frameworkQuestion, styleQuestion, proxyQuestion e, gitQuestion, installQuestion]
           (Map.empty(qname (nameQuestion e) \<mapsto> x1)) r1 = (f1, Some (h, rs'))"
    by blast
  from a1 obtain s where s: "x1 = JStr s" "validateName e s = JBool True"
    using ask_input[of "[]" "validateName e" rs e1 x1 r1] by (auto simp: nameQuestion_def)
  from s(2) have ok: "s \<noteq> [] \<and> (\<forall>c \<in> set s. name_char c) \<and> \<not> existsSync e s"
    by (simp add: validateName_def match_plus_iff split: if_splits)
  have "''projectName'' \<notin> qname ` set [frameworkQuestion, styleQuestion, proxyQuestion e, gitQuestion, installQuestion]"
    by (simp add: frameworkQuestion_def styleQuestion_def proxyQuestion_def gitQuestion_def installQuestion_def)
  from prompt_keeps[OF p1 this] have "h ''projectName'' = Some x1" by (simp add: nameQuestion_def)
  with s(1) ok show ?thesis by simp
qed

lemma wizard_new_name_valid:
  assumes "Call (NewProject opts) \<in> set (fst (inquireNewProject e rs))"
  shows "\<exists>s. name opts = JStr s \<and> s \<noteq> [] \<and> (\<forall>c \<in> set s. name_char c) \<and> \<not> existsSync e s"
proof -
  from inquireNewProject_calls[OF assms] obtain evs h rs' where
    p: "prompt (newQuestions e) Map.empty rs = (evs, Some (h, rs'))"
    and o: "opts = newProjectOptions h" by auto
  from new_prompt_name[OF p] o show ?thesis
    by (auto simp: newProjectOptions_def field_def)
qed

text \<open>
  C5. Claim: every NewProjectOptions handed to newProject, in flag mode and in wizard
  mode, has a name that is non-empty, made of letters, digits and dashes only, and that
  names no existing entry of the working directory. The wizard validates the name (the
  lemma above). The \<open>new\<close> command takes its operand as the name without any check:
  \<open>odin new "my project!"\<close> dispatches a name with a blank and an exclamation mark, and
  \<open>odin new src\<close> dispatches the name of an existing directory.
\<close>

theorem new_flag_name_unchecked:
  "\<not> match_plus name_char ''my project!''
 \<and> hd (fst (main (sample_env [''src'']) []
        (Some \<lparr>token = ''new'', operands = [''my project!''], flags = Map.empty\<rparr>)))
     = Call (NewProject \<lparr>name = JStr ''my project!'', style = JStr ''none'', angular = None,
                          proxy = None, install = None, git = Some (JBool True)\<rparr>)
 \<and> existsSync (sample_env [''src'']) ''src''
 \<and> hd (fst (main (sample_env [''src'']) []
        (Some \<lparr>token = ''new'', operands = [''src''], flags = Map.empty\<rparr>)))
     = Call (NewProject \<lparr>name = JStr ''src'', style = JStr ''none'', angular = None,
                          proxy = None, install = None, git = Some (JBool True)\<rparr>)"
  by (simp add: main_def newAction_def wrapNew_def after_def sample_env_def field_def
      name_char_def in_range_def)

section \<open>The options of the new command\<close>

text \<open>
  With a project name the action builds the options field by field from the flag bag;
  the first lemma collects the result. Without a name, or with the empty name, the action
  hands over to the wizard before it looks at any flag.
\<close>

lemma newAction_flag_calls:
  assumes "truthy projectName"
    and "Call (NewProject opts) \<in> set (fst (newAction e rs projectName options))"
  shows "\<not> (truthy (field options ''proxy'') \<and> \<not> isValidProxyUrl e (field options ''proxy''))
       \<and> opts = \<lparr>name = projectName,
                 style = (if truthy (field options ''material'') then JStr ''material''
                          else if truthy (field options ''soho'') then JStr ''soho'' else JStr ''none''),
                 angular = (if truthy (field options ''angular'') then Some (JBool True) else None),
                 proxy = (if truthy (field options ''proxy'') then Some \<lparr>target = field options ''proxy''\<rparr> else None),
                 install = (if truthy (field options ''install'') then Some (JBool True) else None),
                 git = Some (JBool (\<not> truthy (field options ''skipGit'')))\<rparr>"
proof (cases "truthy (field options ''proxy'') \<and> \<not> isValidProxyUrl e (field options ''proxy'')")
  case True
  with assms exit_calls show ?thesis by (simp add: newAction_def)
next
  case False
  with assms have "Call (NewProject opts) \<in> set (fst (wrapNew e
      \<lparr>name = projectName,
                 style = (if truthy (field options ''material'') then JStr ''material''
                          else if truthy (field options ''soho'') then JStr ''soho'' else JStr ''none''),
                 angular = (if truthy (field options ''angular'') then Some (JBool True) else None),
                 proxy = (if truthy (field options ''proxy'') then Some \<lparr>target = field options ''proxy''\<rparr> else None),
                 install = (if truthy (field options ''install'') then Some (JBool True) else None),
                 git = Some (JBool (\<not> truthy (field options ''skipGit'')))\<rparr>))"
    by (auto simp: newAction_def Let_def split: if_splits)
  with False show ?thesis by (simp only: wrapNew_calls call.inject) simp
qed

lemma new_named:
  "nm \<noteq> [] \<Longrightarrow>
   main e rs (Some \<lparr>token = ''new'', operands = nm # rest, flags = fl\<rparr>) = newAction e rs (JStr nm) fl"
  by (simp add: main_def)

lemma new_unnamed:
  "main e rs (Some \<lparr>token = ''new'', operands = [], flags = fl\<rparr>) = inquireNewProject e rs"
  "main e rs (Some \<lparr>token = ''new'', operands = [] # rest, flags = fl\<rparr>) = inquireNewProject e rs"
  by (simp_all add: main_def newAction_def)

lemma sample_wizard_run:
  "fst (inquireNewProject (sample_env []) [Typed ''shop'', Typed [], Typed [], Typed [], Typed [], Typed []])
     = [Prompted ''projectName'', Prompted ''framework'', Prompted ''style'', Prompted ''proxy'',
        Prompted ''git'', Prompted ''install'',
        Call (NewProject \<lparr>name = JStr ''shop'', style = JStr ''soho'', angular = Some (JBool True),
                            proxy = Some \<lparr>target = JStr ''https://example.com:8080''\<rparr>,
                            install = Some (JBool False), git = Some (JBool True)\<rparr>),
        ConsoleLog [JStr ''Done!''],
        ConsoleLog [JStr ''To continue with the new project, install dependencies and start the server:''],
        ConsoleLog [JStr (CHR 0x09 # ''cd''), JStr ''shop''],
        ConsoleLog [JStr (CHR 0x09 # ''npm install'')],
        ConsoleLog [JStr (CHR 0x09 # ''odin serve'')]]"
  by (simp add: inquireNewProject_def newQuestions_def nameQuestion_def frameworkQuestion_def
      styleQuestion_def proxyQuestion_def gitQuestion_def installQuestion_def validateName_def
      validateProxy_def name_char_def in_range_def highlighted_def sample_env_def
      newProjectOptions_def field_def wrapNew_def after_def)

text \<open>
  C6. Claim: in direct-flag mode the style is resolved by the first match in the order
  material, soho, none, so that whenever \<open>--material\<close> and \<open>--soho\<close> are both
  supplied the resolved style is \<open>material\<close> and never \<open>soho\<close>. As stated this fails
  for a \<open>new\<close> command without project name: \<open>odin new --material --soho\<close> starts the
  wizard, which ignores both flags, and a bare return at the style question dispatches
  \<open>soho\<close>.
\<close>

theorem new_style_flags_counterexample:
  "[''material'' \<mapsto> JBool True, ''soho'' \<mapsto> JBool True] ''material'' = Some (JBool True)
 \<and> [''material'' \<mapsto> JBool True, ''soho'' \<mapsto> JBool True] ''soho'' = Some (JBool True)
 \<and> fst (main (sample_env []) [Typed ''shop'', Typed [], Typed [], Typed [], Typed [], Typed []]
            (Some \<lparr>token = ''new'', operands = [],
                    flags = [''material'' \<mapsto> JBool True, ''soho'' \<mapsto> JBool True]\<rparr>)) ! 6
     = Call (NewProject \<lparr>name = JStr ''shop'', style = JStr ''soho'', angular = Some (JBool True),
                          proxy = Some \<lparr>target = JStr ''https://example.com:8080''\<rparr>,
                          install = Some (JBool False), git = Some (JBool True)\<rparr>)"
  by (simp add: new_unnamed sample_wizard_run)

text \<open>
  C6, amended. When the \<open>new\<close> command is given a project name that is not empty, the style is resolved
  by the first match in the order material, soho, none: with \<open>--material\<close> and
  \<open>--soho\<close> together the dispatched style is \<open>material\<close> and never \<open>soho\<close>, with
  \<open>--soho\<close> alone it is \<open>soho\<close>, with neither flag it is \<open>none\<close>. Without a project
  name the command is the run of the wizard, whatever the flags.
\<close>

theorem new_named_flags_style:
  assumes "nm \<noteq> []"
    and "Call (NewProject opts)
           \<in> set (fst (main e rs (Some \<lparr>token = ''new'', operands = nm # rest, flags = fl\<rparr>)))"
  shows "(fl ''material'' = Some (JBool True) \<and> fl ''soho'' = Some (JBool True) \<longrightarrow>
            style opts = JStr ''material'' \<and> style opts \<noteq> JStr ''soho'')
       \<and> (fl ''material'' = Some (JBool True) \<longrightarrow> style opts = JStr ''material'')
       \<and> (fl ''material'' = None \<and> fl ''soho'' = Some (JBool True) \<longrightarrow> style opts = JStr ''soho'')
       \<and> (fl ''material'' = None \<and> fl ''soho'' = None \<longrightarrow> style opts = JStr ''none'')
       \<and> style opts = (if truthy (field fl ''material'') then JStr ''material''
                        else if truthy (field fl ''soho'') then JStr ''soho'' else JStr ''none'')
       \<and> main e rs (Some \<lparr>token = ''new'', operands = [], flags = fl\<rparr>) = inquireNewProject e rs"
proof -
  have t: "truthy (JStr nm)" using assms(1) by simp
  from assms have "Call (NewProject opts) \<in> set (fst (newAction e rs (JStr nm) fl))"
    by (simp add: new_named)
  from newAction_flag_calls[OF t this]
  have s: "style opts = (if truthy (field fl ''material'') then JStr ''material''
                        else if truthy (field fl ''soho'') then JStr ''soho'' else JStr ''none'')"
    by simp
  have w: "main e rs (Some \<lparr>token = ''new'', operands = [], flags = fl\<rparr>) = inquireNewProject e rs"
    by (rule new_unnamed(1))
  from s w show ?thesis by (simp add: field_def)
qed

theorem new_named_flags_style_witness:
  "''shop'' \<noteq> []
 \<and> Call (NewProject \<lparr>name = JStr ''shop'', style = JStr ''material'', angular = None,
                       proxy = None, install = None, git = Some (JBool True)\<rparr>)
     \<in> set (fst (main (sample_env []) [] (Some \<lparr>token = ''new'', operands = [''shop''],
                  flags = [''material'' \<mapsto> JBool True, ''soho'' \<mapsto> JBool True]\<rparr>)))
 \<and> style \<lparr>name = JStr ''shop'', style = JStr ''material'', angular = None,
           proxy = None, install = None, git = Some (JBool True)\<rparr> = JStr ''material''
 \<and> Call (NewProject \<lparr>name = JStr ''shop'', style = JStr ''soho'', angular = None,
                       proxy = None, install = None, git = Some (JBool True)\<rparr>)
     \<in> set (fst (main (sample_env []) [] (Some \<lparr>token = ''new'', operands = [''shop''],
                  flags = [''soho'' \<mapsto> JBool True]\<rparr>)))
 \<and> style \<lparr>name = JStr ''shop'', style = JStr ''soho'', angular = None,
           proxy = None, install = None, git = Some (JBool True)\<rparr> = JStr ''soho''
 \<and> Call (NewProject \<lparr>name = JStr ''shop'', style = JStr ''none'', angular = None,
                       proxy = None, install = None, git = Some (JBool True)\<rparr>)
     \<in> set (fst (main (sample_env []) [] (Some \<lparr>token = ''new'', operands = [''shop''],
                  flags = Map.empty\<rparr>)))
 \<and> style \<lparr>name = JStr ''shop'', style = JStr ''none'', angular = None,
           proxy = None, install = None, git = Some (JBool True)\<rparr> = JStr ''none''"
proof -
  have n: "''shop'' \<noteq> []" by simp
  have both: "Call (NewProject \<lparr>name = JStr ''shop'', style = JStr ''material'', angular = None,
                       proxy = None, install = None, git = Some (JBool True)\<rparr>)
     \<in> set (fst (main (sample_env []) [] (Some \<lparr>token = ''new'', operands = [''shop''],
                  flags = [''material'' \<mapsto> JBool True, ''soho'' \<mapsto> JBool True]\<rparr>)))"
    by (simp add: main_def newAction_def wrapNew_def after_def sample_env_def field_def)
  have soho: "Call (NewProject \<lparr>name = JStr ''shop'', style = JStr ''soho'', angular = None,
                       proxy = None, install = None, git = Some (JBool True)\<rparr>)
     \<in> set (fst (main (sample_env []) [] (Some \<lparr>token = ''new'', operands = [''shop''],
                  flags = [''soho'' \<mapsto> JBool True]\<rparr>)))"
    by (simp add: main_def newAction_def wrapNew_def after_def sample_env_def field_def)
  have neither: "Call (NewProject \<lparr>name = JStr ''shop'', style = JStr ''none'', angular = None,
                       proxy = None, install = None, git = Some (JBool True)\<rparr>)
     \<in> set (fst (main (sample_env []) [] (Some \<lparr>token = ''new'', operands = [''shop''],
                  flags = Map.empty\<rparr>)))"
    by (simp add: main_def newAction_def wrapNew_def after_def sample_env_def field_def)
  from new_named_flags_style[OF n both] new_named_flags_style[OF n soho]
       new_named_flags_style[OF n neither] n both soho neither
  show ?thesis by simp
qed

text \<open>
  C7. Claim: the resolved NewProjectOptions contains a \<open>proxy\<close> field if and only if a
  proxy input was supplied, and without one the field is entirely absent. As stated this
  fails twice. \<open>odin new shop --proxy ""\<close> supplies the flag, with the empty string, and
  the dispatched options have no proxy field. \<open>odin new\<close> with no flag starts the wizard,
  and with a bare return at the proxy question the dispatched options have a proxy field,
  whose target is the default of the question.
\<close>

theorem new_proxy_supplied_counterexample:
  "[''proxy'' \<mapsto> JStr []] ''proxy'' \<noteq> None
 \<and> hd (fst (main (sample_env []) []
        (Some \<lparr>token = ''new'', operands = [''shop''], flags = [''proxy'' \<mapsto> JStr []]\<rparr>)))
     = Call (NewProject \<lparr>name = JStr ''shop'', style = JStr ''none'', angular = None,
                          proxy = None, install = None, git = Some (JBool True)\<rparr>)
 \<and> (Map.empty :: answers) ''proxy'' = None
 \<and> fst (main (sample_env []) [Typed ''shop'', Typed [], Typed [], Typed [], Typed [], Typed []]
            (Some \<lparr>token = ''new'', operands = [], flags = Map.empty\<rparr>)) ! 6
     = Call (NewProject \<lparr>name = JStr ''shop'', style = JStr ''soho'', angular = Some (JBool True),
                          proxy = Some \<lparr>target = JStr ''https://example.com:8080''\<rparr>,
                          install = Some (JBool False), git = Some (JBool True)\<rparr>)"
  by (simp add: new_unnamed sample_wizard_run)
     (simp add: main_def newAction_def wrapNew_def after_def sample_env_def field_def)

text \<open>
  C7, amended. When the \<open>new\<close> command is given a project name that is not empty, the dispatched
  NewProjectOptions contains a \<open>proxy\<close> field if and only if \<open>--proxy\<close> was supplied
  and its value is not the empty string, and the target of the field is that value, which
  has passed the URL check (commander records \<open>true\<close> for a flag without argument). Without the flag, or with the empty string, the field
  is absent from the object: not null, not empty. Without a project name the wizard runs
  and every options object it dispatches has a proxy field.
\<close>

theorem new_named_flags_proxy:
  assumes "nm \<noteq> []"
    and "Call (NewProject opts)
           \<in> set (fst (main e rs (Some \<lparr>token = ''new'', operands = nm # rest, flags = fl\<rparr>)))"
  shows "(fl ''proxy'' = None \<longrightarrow> proxy opts = None)
       \<and> (fl ''proxy'' = Some (JStr []) \<longrightarrow> proxy opts = None)
       \<and> (\<forall>u. u \<noteq> [] \<and> fl ''proxy'' = Some (JStr u) \<longrightarrow>
             proxy opts = Some \<lparr>target = JStr u\<rparr> \<and> isValidProxyUrl e (JStr u))
       \<and> (fl ''proxy'' = Some (JBool True) \<longrightarrow> proxy opts = Some \<lparr>target = JBool True\<rparr>)
       \<and> (proxy opts \<noteq> None \<longleftrightarrow> truthy (field fl ''proxy''))
       \<and> (\<forall>opts'. Call (NewProject opts')
                     \<in> set (fst (main e rs (Some \<lparr>token = ''new'', operands = [], flags = fl\<rparr>)))
             \<longrightarrow> proxy opts' \<noteq> None)"
proof -
  have t: "truthy (JStr nm)" using assms(1) by simp
  from assms have "Call (NewProject opts) \<in> set (fst (newAction e rs (JStr nm) fl))"
    by (simp add: new_named)
  from newAction_flag_calls[OF t this]
  have v: "\<not> (truthy (field fl ''proxy'') \<and> \<not> isValidProxyUrl e (field fl ''proxy''))"
    and p: "proxy opts = (if truthy (field fl ''proxy'') then Some \<lparr>target = field fl ''proxy''\<rparr> else None)"
    by simp_all
  have named: "(fl ''proxy'' = None \<longrightarrow> proxy opts = None)
       \<and> (fl ''proxy'' = Some (JStr []) \<longrightarrow> proxy opts = None)
       \<and> (\<forall>u. u \<noteq> [] \<and> fl ''proxy'' = Some (JStr u) \<longrightarrow>
             proxy opts = Some \<lparr>target = JStr u\<rparr> \<and> isValidProxyUrl e (JStr u))
       \<and> (fl ''proxy'' = Some (JBool True) \<longrightarrow> proxy opts = Some \<lparr>target = JBool True\<rparr>)
       \<and> (proxy opts \<noteq> None \<longleftrightarrow> truthy (field fl ''proxy''))"
    using v p by (auto simp: field_def)
  have wizard: "\<forall>opts'. Call (NewProject opts')
                     \<in> set (fst (main e rs (Some \<lparr>token = ''new'', operands = [], flags = fl\<rparr>)))
             \<longrightarrow> proxy opts' \<noteq> None"
  proof (intro allI impI)
    fix opts'
    assume "Call (NewProject opts')
              \<in> set (fst (main e rs (Some \<lparr>token = ''new'', operands = [], flags = fl\<rparr>)))"
    then have "Call (NewProject opts') \<in> set (fst (inquireNewProject e rs))"
      by (simp add: new_unnamed)
    from inquireNewProject_calls[OF this] show "proxy opts' \<noteq> None"
      by (auto simp: newProjectOptions_def)
  qed
  from named wizard show ?thesis by simp
qed

theorem new_named_flags_proxy_witness:
  "''shop'' \<noteq> []
 \<and> Call (NewProject \<lparr>name = JStr ''shop'', style = JStr ''none'', angular = None,
                       proxy = None, install = None, git = Some (JBool True)\<rparr>)
     \<in> set (fst (main (sample_env []) [] (Some \<lparr>token = ''new'', operands = [''shop''],
                  flags = Map.empty\<rparr>)))
 \<and> (Map.empty :: answers) ''proxy'' = None
 \<and> proxy \<lparr>name = JStr ''shop'', style = JStr ''none'', angular = None,
           proxy = None, install = None, git = Some (JBool True)\<rparr> = None
 \<and> Call (NewProject \<lparr>name = JStr ''shop'', style = JStr ''none'', angular = None,
                       proxy = Some \<lparr>target = JStr ''https://m3.example.com:54008''\<rparr>,
                       install = None, git = Some (JBool True)\<rparr>)
     \<in> set (fst (main (sample_env []) [] (Some \<lparr>token = ''new'', operands = [''shop''],
                  flags = [''proxy'' \<mapsto> JStr ''https://m3.example.com:54008'']\<rparr>)))
 \<and> ''https://m3.example.com:54008'' \<noteq> []
 \<and> [''proxy'' \<mapsto> JStr ''https://m3.example.com:54008''] ''proxy'' = Some (JStr ''https://m3.example.com:54008'')
 \<and> proxy \<lparr>name = JStr ''shop'', style = JStr ''none'', angular = None,
           proxy = Some \<lparr>target = JStr ''https://m3.example.com:54008''\<rparr>,
           install = None, git = Some (JBool True)\<rparr>
     = Some \<lparr>target = JStr ''https://m3.example.com:54008''\<rparr>
 \<and> isValidProxyUrl (sample_env []) (JStr ''https://m3.example.com:54008'')
 \<and> Call (NewProject \<lparr>name = JStr ''shop'', style = JStr ''soho'', angular = Some (JBool True),
                       proxy = Some \<lparr>target = JStr ''https://example.com:8080''\<rparr>,
                       install = Some (JBool False), git = Some (JBool True)\<rparr>)
     \<in> set (fst (main (sample_env []) [Typed ''shop'', Typed [], Typed [], Typed [], Typed [], Typed []]
                  (Some \<lparr>token = ''new'', operands = [], flags = Map.empty\<rparr>)))
 \<and> proxy \<lparr>name = JStr ''shop'', style = JStr ''soho'', angular = Some (JBool True),
           proxy = Some \<lparr>target = JStr ''https://example.com:8080''\<rparr>,
           install = Some (JBool False), git = Some (JBool True)\<rparr> \<noteq> None"
proof -
  have n: "''shop'' \<noteq> []" by simp
  have without: "Call (NewProject \<lparr>name = JStr ''shop'', style = JStr ''none'', angular = None,
                       proxy = None, install = None, git = Some (JBool True)\<rparr>)
     \<in> set (fst (main (sample_env []) [] (Some \<lparr>token = ''new'', operands = [''shop''],
                  flags = Map.empty\<rparr>)))"
    by (simp add: main_def newAction_def wrapNew_def after_def sample_env_def field_def)
  have given: "Call (NewProject \<lparr>name = JStr ''shop'', style = JStr ''none'', angular = None,
                       proxy = Some \<lparr>target = JStr ''https://m3.example.com:54008''\<rparr>,
                       install = None, git = Some (JBool True)\<rparr>)
     \<in> set (fst (main (sample_env []) [] (Some \<lparr>token = ''new'', operands = [''shop''],
                  flags = [''proxy'' \<mapsto> JStr ''https://m3.example.com:54008'']\<rparr>)))"
    by (simp add: main_def newAction_def wrapNew_def after_def sample_env_def field_def)
  have wizard: "Call (NewProject \<lparr>name = JStr ''shop'', style = JStr ''soho'', angular = Some (JBool True),
                       proxy = Some \<lparr>target = JStr ''https://example.com:8080''\<rparr>,
                       install = Some (JBool False), git = Some (JBool True)\<rparr>)
     \<in> set (fst (main (sample_env []) [Typed ''shop'', Typed [], Typed [], Typed [], Typed [], Typed []]
                  (Some \<lparr>token = ''new'', operands = [], flags = Map.empty\<rparr>)))"
    by (simp add: new_unnamed sample_wizard_run)
  have valid: "isValidProxyUrl (sample_env []) (JStr ''https://m3.example.com:54008'')"
    by (simp add: sample_env_def)
  have named: "Call (NewProject \<lparr>name = JStr ''shop'', style = JStr ''none'', angular = None,
                       proxy = None, install = None, git = Some (JBool True)\<rparr>)
     \<in> set (fst (main (sample_env []) [Typed ''shop'', Typed [], Typed [], Typed [], Typed [], Typed []]
                  (Some \<lparr>token = ''new'', operands = [''shop''], flags = Map.empty\<rparr>)))"
    by (simp add: main_def newAction_def wrapNew_def after_def sample_env_def field_def)
  from new_named_flags_proxy[OF n without] new_named_flags_proxy[OF n named]
       new_named_flags_proxy[OF n given] n without given wizard valid
  show ?thesis by simp
qed

section \<open>The name validator\<close>

text \<open>
  C8. The validator of the project name accepts every string that matches
  \<open>^[a-zA-Z0-9-]+$\<close>, that is, every non-empty string of letters, digits and dashes, and
  that names no existing entry; for every other string it returns a non-empty reason. The
  reason tells the cause: the message about the allowed characters when the pattern
  fails, the message about the existing directory when the pattern holds and an entry of
  that name exists. The two messages differ.
\<close>

theorem validateName_verdict:
  "(nm \<noteq> [] \<and> (\<forall>c \<in> set nm. name_char c) \<and> \<not> existsSync e nm \<longrightarrow> validateName e nm = JBool True)
 \<and> (\<not> (nm \<noteq> [] \<and> (\<forall>c \<in> set nm. name_char c) \<and> \<not> existsSync e nm) \<longrightarrow>
       (\<exists>reason. validateName e nm = JStr reason \<and> reason \<noteq> []))
 \<and> (\<not> (nm \<noteq> [] \<and> (\<forall>c \<in> set nm. name_char c)) \<longrightarrow>
       validateName e nm = JStr ''The project name can only have letters, numbers and dashes'')
 \<and> (nm \<noteq> [] \<and> (\<forall>c \<in> set nm. name_char c) \<and> existsSync e nm \<longrightarrow>
       validateName e nm = JStr ''The directory already exists.'')
 \<and> ''The project name can only have letters, numbers and dashes'' \<noteq> ''The directory already exists.''"
  by (simp add: validateName_def match_plus_iff)

theorem validateName_verdict_witness:
  "validateName (sample_env [''src'', ''my app'']) ''my-app-2'' = JBool True
 \<and> validateName (sample_env [''src'', ''my app'']) ''src'' = JStr ''The directory already exists.''
 \<and> validateName (sample_env [''src'', ''my app'']) ''my app'' = JStr ''The project name can only have letters, numbers and dashes''
 \<and> validateName (sample_env [''src'', ''my app'']) [] = JStr ''The project name can only have letters, numbers and dashes''"
proof -
  have ok: "''my-app-2'' \<noteq> [] \<and> (\<forall>c \<in> set ''my-app-2''. name_char c)
            \<and> \<not> existsSync (sample_env [''src'', ''my app'']) ''my-app-2''"
    by (simp add: name_char_def in_range_def sample_env_def)
  have ex: "''src'' \<noteq> [] \<and> (\<forall>c \<in> set ''src''. name_char c)
            \<and> existsSync (sample_env [''src'', ''my app'']) ''src''"
    by (simp add: name_char_def in_range_def sample_env_def)
  have bad: "\<not> (''my app'' \<noteq> [] \<and> (\<forall>c \<in> set ''my app''. name_char c))"
    by (simp add: name_char_def in_range_def)
  have empty: "\<not> (([]::string) \<noteq> [] \<and> (\<forall>c \<in> set ([]::string). name_char c))"
    by simp
  from validateName_verdict[of "''my-app-2''" "sample_env [''src'', ''my app'']"] ok
  have 1: "validateName (sample_env [''src'', ''my app'']) ''my-app-2'' = JBool True" by blast
  from validateName_verdict[of "''src''" "sample_env [''src'', ''my app'']"] ex
  have 2: "validateName (sample_env [''src'', ''my app'']) ''src'' = JStr ''The directory already exists.''" by blast
  from validateName_verdict[of "''my app''" "sample_env [''src'', ''my app'']"] bad
  have 3: "validateName (sample_env [''src'', ''my app'']) ''my app'' = JStr ''The project name can only have letters, numbers and dashes''" by blast
  from validateName_verdict[of "[]" "sample_env [''src'', ''my app'']"] empty
  have 4: "validateName (sample_env [''src'', ''my app'']) [] = JStr ''The project name can only have letters, numbers and dashes''" by blast
  from 1 2 3 4 show ?thesis by blast
qed

section \<open>Unknown commands\<close>

text \<open>
  Every token other than the five command names and \<open>*\<close> gets the error that names it,
  the help text and exit status 1, and no collaborator is called. The token \<open>*\<close> gets an
  error, the help text and exit status 1 as well.
\<close>

lemma unknown_token_fails:
  assumes "tok \<notin> set commandNames" and "tok \<noteq> ''*''"
  shows "main e rs (Some \<lparr>token = tok, operands = args, flags = fl\<rparr>)
           = ([ConsoleError [JStr ''ERROR:'', JStr (''Unknown command '' @ [CHR 0x27] @ tok @ [CHR 0x27])],
               OutputHelp], Exited 1)"
  using assms by (simp add: main_def commandNames_def unknownCommand_def exit_def)

lemma star_token_fails:
  "\<exists>shown. main e rs (Some \<lparr>token = ''*'', operands = args, flags = fl\<rparr>)
           = ([ConsoleError [JStr ''ERROR:'', JStr (''Unknown command '' @ [CHR 0x27] @ shown @ [CHR 0x27])],
               OutputHelp], Exited 1)"
  by (cases args) (simp_all add: main_def unknownCommand_def exit_def)

text \<open>
  C9. Claim: for every command token other than \<open>new\<close>, \<open>serve\<close>, \<open>build\<close>, \<open>set\<close>
  and \<open>login\<close>, the process prints an error that names the unknown command, prints the
  help text and exits with status 1, no collaborator being called. The token \<open>*\<close> is
  no command name, and the error printed for \<open>odin '*'\<close> does not name it: commander
  removes the token before it calls the handler, which then names \<open>undefined\<close>, or the
  operand that follows, \<open>build\<close> for \<open>odin '*' build\<close>.
\<close>

theorem unknown_command_star:
  "''*'' \<notin> set commandNames
 \<and> main (sample_env [''odin.json'']) [] (Some \<lparr>token = ''*'', operands = [], flags = Map.empty\<rparr>)
     = ([ConsoleError [JStr ''ERROR:'', JStr (''Unknown command '' @ [CHR 0x27] @ ''undefined'' @ [CHR 0x27])],
         OutputHelp], Exited 1)
 \<and> main (sample_env [''odin.json'']) [] (Some \<lparr>token = ''*'', operands = [''build''], flags = Map.empty\<rparr>)
     = ([ConsoleError [JStr ''ERROR:'', JStr (''Unknown command '' @ [CHR 0x27] @ ''build'' @ [CHR 0x27])],
         OutputHelp], Exited 1)"
  by (simp add: main_def commandNames_def unknownCommand_def exit_def)

section \<open>The proxy of the new project wizard\<close>

lemma new_prompt_proxy:
  assumes "prompt (newQuestions e) Map.empty rs = (evs, Some (h, rs'))"
  shows "\<exists>u. h ''proxy'' = Some (JStr u) \<and> isValidProxyUrl e (JStr u) \<and> Prompted ''proxy'' \<in> set evs"
proof -
  have w: "\<And>g. qwhen (nameQuestion e) g" "\<And>g. qwhen frameworkQuestion g"
    "\<And>g. qwhen styleQuestion g" "\<And>g. qwhen (proxyQuestion e) g"
    by (simp_all add: nameQuestion_def frameworkQuestion_def styleQuestion_def proxyQuestion_def)
  from prompt_asked[OF assms[unfolded newQuestions_def] w(1)] obtain e1 x1 r1 f1 where
    p1: "prompt [frameworkQuestion, styleQuestion, proxyQuestion e, gitQuestion, installQuestion]
           (Map.empty(qname (nameQuestion e) \<mapsto> x1)) r1 = (f1, Some (h, rs'))"
    and v1: "evs = Prompted (qname (nameQuestion e)) # e1 @ f1"
    by blast
  from prompt_asked[OF p1 w(2)] obtain e2 x2 r2 f2 where
    p2: "prompt [styleQuestion, proxyQuestion e, gitQuestion, installQuestion]
           (Map.empty(qname (nameQuestion e) \<mapsto> x1, qname frameworkQuestion \<mapsto> x2)) r2 = (f2, Some (h, rs'))"
    and v2: "f1 = Prompted (qname frameworkQuestion) # e2 @ f2"
    by blast
  from prompt_asked[OF p2 w(3)] obtain e3 x3 r3 f3 where
    p3: "prompt [proxyQuestion e, gitQuestion, installQuestion]
           (Map.empty(qname (nameQuestion e) \<mapsto> x1, qname frameworkQuestion \<mapsto> x2,
              qname styleQuestion \<mapsto> x3)) r3 = (f3, Some (h, rs'))"
    and v3: "f2 = Prompted (qname styleQuestion) # e3 @ f3"
    by blast
  from prompt_asked[OF p3 w(4)] obtain e4 x4 r4 f4 where
    a4: "ask (qkind (proxyQuestion e)) r3 = (e4, Some (x4, r4))"
    and p4: "prompt [gitQuestion, installQuestion]
           (Map.empty(qname (nameQuestion e) \<mapsto> x1, qname frameworkQuestion \<mapsto> x2,
              qname styleQuestion \<mapsto> x3, qname (proxyQuestion e) \<mapsto> x4)) r4 = (f4, Some (h, rs'))"
    and v4: "f3 = Prompted (qname (proxyQuestion e)) # e4 @ f4"
    by blast
  from v1 v2 v3 v4 have asked: "Prompted ''proxy'' \<in> set evs"
    by (simp add: proxyQuestion_def)
  from a4 obtain u where u: "x4 = JStr u" "validateProxy e u = JBool True"
    using ask_input[of "''https://example.com:8080''" "validateProxy e" r3 e4 x4 r4]
    by (auto simp: proxyQuestion_def)
  from u(2) have valid: "isValidProxyUrl e (JStr u)"
    by (simp add: validateProxy_def split: if_splits)
  have "''proxy'' \<notin> qname ` set [gitQuestion, installQuestion]"
    by (simp add: gitQuestion_def installQuestion_def)
  from prompt_keeps[OF p4 this] have "h ''proxy'' = Some x4"
    by (simp add: proxyQuestion_def)
  with u(1) valid asked show ?thesis by simp
qed

text \<open>
  C10. Every NewProjectOptions that the new project wizard hands to newProject has a
  \<open>proxy\<close> field, and its target is the answer of the proxy question, which is asked in
  every run. In flag mode the field can be absent: a \<open>new\<close> command with a name and no
  flag dispatches options without it.
\<close>

theorem wizard_new_proxy_present:
  assumes "Call (NewProject opts) \<in> set (fst (inquireNewProject e rs))"
  shows "(\<exists>evs h rs' u. prompt (newQuestions e) Map.empty rs = (evs, Some (h, rs'))
            \<and> Prompted ''proxy'' \<in> set evs
            \<and> h ''proxy'' = Some (JStr u)
            \<and> proxy opts = Some \<lparr>target = JStr u\<rparr>)
       \<and> (\<exists>opts'. Call (NewProject opts') \<in> set (fst (newAction e rs (JStr ''shop'') Map.empty))
            \<and> proxy opts' = None)"
proof -
  from inquireNewProject_calls[OF assms] obtain evs h rs' where
    p: "prompt (newQuestions e) Map.empty rs = (evs, Some (h, rs'))"
    and o: "opts = newProjectOptions h" by auto
  from new_prompt_proxy[OF p] obtain u where
    u: "h ''proxy'' = Some (JStr u)" and asked: "Prompted ''proxy'' \<in> set evs" by blast
  with o have "proxy opts = Some \<lparr>target = JStr u\<rparr>"
    by (simp add: newProjectOptions_def field_def)
  with p u asked have wizard: "\<exists>evs h rs' u. prompt (newQuestions e) Map.empty rs = (evs, Some (h, rs'))
            \<and> Prompted ''proxy'' \<in> set evs
            \<and> h ''proxy'' = Some (JStr u)
            \<and> proxy opts = Some \<lparr>target = JStr u\<rparr>" by blast
  have "Call (NewProject \<lparr>name = JStr ''shop'', style = JStr ''none'', angular = None,
                           proxy = None, install = None, git = Some (JBool True)\<rparr>)
          \<in> set (fst (newAction e rs (JStr ''shop'') Map.empty))"
    by (simp add: newAction_def field_def wrapNew_calls)
  then have flag: "\<exists>opts'. Call (NewProject opts') \<in> set (fst (newAction e rs (JStr ''shop'') Map.empty))
            \<and> proxy opts' = None"
    by (intro exI[of _ "\<lparr>name = JStr ''shop'', style = JStr ''none'', angular = None,
                           proxy = None, install = None, git = Some (JBool True)\<rparr>"]) simp
  from wizard flag show ?thesis by (rule conjI)
qed

theorem wizard_new_proxy_present_witness:
  "Call (NewProject \<lparr>name = JStr ''shop'', style = JStr ''soho'', angular = Some (JBool False),
                      proxy = Some \<lparr>target = JStr ''https://example.com:8080''\<rparr>,
                      install = Some (JBool False), git = Some (JBool True)\<rparr>)
     \<in> set (fst (inquireNewProject (sample_env [])
                  [Typed ''shop'', Selected 1, Typed [], Typed [], Typed ''y'', Typed ''n'']))
 \<and> (\<exists>evs h rs' u. prompt (newQuestions (sample_env [])) Map.empty
                      [Typed ''shop'', Selected 1, Typed [], Typed [], Typed ''y'', Typed ''n'']
                    = (evs, Some (h, rs'))
        \<and> Prompted ''proxy'' \<in> set evs
        \<and> h ''proxy'' = Some (JStr u)
        \<and> proxy \<lparr>name = JStr ''shop'', style = JStr ''soho'', angular = Some (JBool False),
                  proxy = Some \<lparr>target = JStr ''https://example.com:8080''\<rparr>,
                  install = Some (JBool False), git = Some (JBool True)\<rparr>
            = Some \<lparr>target = JStr u\<rparr>)"
proof -
  have run: "Call (NewProject \<lparr>name = JStr ''shop'', style = JStr ''soho'', angular = Some (JBool False),
                      proxy = Some \<lparr>target = JStr ''https://example.com:8080''\<rparr>,
                      install = Some (JBool False), git = Some (JBool True)\<rparr>)
     \<in> set (fst (inquireNewProject (sample_env [])
                  [Typed ''shop'', Selected 1, Typed [], Typed [], Typed ''y'', Typed ''n'']))"
    by (simp add: inquireNewProject_def newQuestions_def nameQuestion_def frameworkQuestion_def
        styleQuestion_def proxyQuestion_def gitQuestion_def installQuestion_def validateName_def
        validateProxy_def name_char_def in_range_def says_yes_def highlighted_def sample_env_def
        newProjectOptions_def field_def wrapNew_def after_def)
  from wizard_new_proxy_present[OF run] run show ?thesis by blast
qed

end
